theory Spec2Isabelle
  imports Complex_Main "HOL-Library.AList" "HOL-Library.Char_ord" "HOL-Library.List_Lexorder"
begin

section \<open>Python values, exceptions and decimal text\<close>

text \<open>
  Exceptions are values.  The constructors are the exception classes the backend raises or
  catches by name; \<open>Raised c m\<close> is any other subclass of \<open>Exception\<close> (class name \<open>c\<close>,
  message \<open>m\<close>) and \<open>BaseRaised c m\<close> one that derives from \<open>BaseException\<close> only
  (\<open>SystemExit\<close>, \<open>KeyboardInterrupt\<close>), which an \<open>except Exception\<close> clause does not catch.
  pydantic's \<open>ValidationError\<close> is a subclass of \<open>ValueError\<close>, not of \<open>TypeError\<close>.
\<close>

datatype exn =
    JSONDecodeError string
  | TypeError string
  | ValidationError string
  | ImportError string
  | AttributeError string
  | OSError string
  | HTTPException nat string
  | KeyError string
  | Raised string string
  | BaseRaised string string

fun is_Exception :: "exn \<Rightarrow> bool" where
  "is_Exception (BaseRaised c m) = False"
| "is_Exception e = True"

definition digit_char :: "nat \<Rightarrow> char" where
  "digit_char d = ''0123456789'' ! (d mod 10)"

definition char_digit :: "char \<Rightarrow> nat option" where
  "char_digit c =
     map_of [(CHR ''0'', 0), (CHR ''1'', 1), (CHR ''2'', 2), (CHR ''3'', 3), (CHR ''4'', 4),
             (CHR ''5'', 5), (CHR ''6'', 6), (CHR ''7'', 7), (CHR ''8'', 8), (CHR ''9'', 9)] c"

text \<open>\<open>str(n)\<close> for a non-negative integer: decimal digits, no padding.\<close>

fun str_nat :: "nat \<Rightarrow> string" where
  "str_nat n = (if n < 10 then [digit_char n] else str_nat (n div 10) @ [digit_char (n mod 10)])"

declare str_nat.simps [simp del]

definition str_int :: "int \<Rightarrow> string" where
  "str_int i = (if i < 0 then CHR ''-'' # str_nat (nat (- i)) else str_nat (nat i))"

text \<open>\<open>repr(s)\<close> of a string without quotes or escapes: the string in single quotes.\<close>

definition quoted :: "string \<Rightarrow> string" where
  "quoted s = CHR 0x27 # s @ [CHR 0x27]"

text \<open>
  \<open>str(e)\<close>, the text an f-string puts in place of \<open>{e}\<close>: the message; for a
  \<open>KeyError\<close> the key in quotes; for an \<open>HTTPException\<close> the status code, a colon and
  the detail.
\<close>

fun exn_str :: "exn \<Rightarrow> string" where
  "exn_str (JSONDecodeError m) = m"
| "exn_str (TypeError m) = m"
| "exn_str (ValidationError m) = m"
| "exn_str (ImportError m) = m"
| "exn_str (AttributeError m) = m"
| "exn_str (OSError m) = m"
| "exn_str (HTTPException c m) = str_nat c @ '': '' @ m"
| "exn_str (KeyError k) = quoted k"
| "exn_str (Raised c m) = m"
| "exn_str (BaseRaised c m) = m"

text \<open>The last \<open>k\<close> decimal digits of \<open>n\<close>, zero padded (\<open>%04d\<close> and the like).\<close>

fun zfill :: "nat \<Rightarrow> nat \<Rightarrow> string" where
  "zfill 0 n = []"
| "zfill (Suc k) n = zfill k (n div 10) @ [digit_char (n mod 10)]"

fun read_digits :: "string \<Rightarrow> nat \<Rightarrow> nat option" where
  "read_digits [] acc = Some acc"
| "read_digits (c # cs) acc =
     (case char_digit c of None \<Rightarrow> None | Some d \<Rightarrow> read_digits cs (acc * 10 + d))"

text \<open>
  Values a widget receives and returns: text, numbers, \<open>None\<close>, and the upload object
  of the request form (file name, content).
\<close>

datatype pyval = PyStr string | PyInt int | PyNone | PyUploadFile string string

text \<open>\<open>str(v)\<close>.\<close>

fun py_str :: "pyval \<Rightarrow> string" where
  "py_str (PyStr s) = s"
| "py_str (PyInt i) = str_int i"
| "py_str PyNone = ''None''"
| "py_str (PyUploadFile f c) = ''UploadFile(filename='' @ f @ '')''"

text \<open>\<open>type(v).__name__\<close>\<close>

fun type_name :: "pyval \<Rightarrow> string" where
  "type_name (PyStr s) = ''str''"
| "type_name (PyInt i) = ''int''"
| "type_name PyNone = ''NoneType''"
| "type_name (PyUploadFile filename content) = ''UploadFile''"

section \<open>models.py\<close>

text \<open>
  A naive \<open>datetime\<close> (what \<open>datetime.utcnow()\<close> returns) is its seven fields.
\<close>

record datetime =
  year :: nat
  month :: nat
  day :: nat
  hour :: nat
  minute :: nat
  second :: nat
  microsecond :: nat

definition is_leap :: "nat \<Rightarrow> bool" where
  "is_leap y = (y mod 4 = 0 \<and> (y mod 100 \<noteq> 0 \<or> y mod 400 = 0))"

definition days_in_month :: "nat \<Rightarrow> nat \<Rightarrow> nat" where
  "days_in_month y m =
     (if m = 2 then (if is_leap y then 29 else 28)
      else if m = 4 \<or> m = 6 \<or> m = 9 \<or> m = 11 then 30 else 31)"

definition valid_datetime :: "datetime \<Rightarrow> bool" where
  "valid_datetime d =
     (1 \<le> year d \<and> year d \<le> 9999 \<and> 1 \<le> month d \<and> month d \<le> 12 \<and>
      1 \<le> day d \<and> day d \<le> days_in_month (year d) (month d) \<and>
      hour d < 24 \<and> minute d < 60 \<and> second d < 60 \<and> microsecond d < 1000000)"

text \<open>
  The JSON form of a naive datetime in \<open>model_dump(mode='json')\<close>:
  \<open>YYYY-MM-DDTHH:MM:SS\<close>, followed by \<open>.ffffff\<close> when the microseconds are not zero.
\<close>

definition isoformat :: "datetime \<Rightarrow> string" where
  "isoformat d =
     zfill 4 (year d) @ CHR ''-'' # zfill 2 (month d) @ CHR ''-'' # zfill 2 (day d) @
     CHR ''T'' # zfill 2 (hour d) @ CHR '':'' # zfill 2 (minute d) @ CHR '':'' #
     zfill 2 (second d) @
     (if microsecond d = 0 then [] else CHR ''.'' # zfill 6 (microsecond d))"

definition take_num :: "nat \<Rightarrow> string \<Rightarrow> (nat \<times> string) option" where
  "take_num k s =
     (if length s < k then None
      else case read_digits (take k s) 0 of None \<Rightarrow> None | Some n \<Rightarrow> Some (n, drop k s))"

fun expect :: "char \<Rightarrow> string \<Rightarrow> string option" where
  "expect c [] = None"
| "expect c (x # xs) = (if x = c then Some xs else None)"

definition parse_fraction :: "string \<Rightarrow> nat option" where
  "parse_fraction s =
     (if s = [] then Some 0
      else case expect (CHR ''.'') s of None \<Rightarrow> None
        | Some s1 \<Rightarrow> (case take_num 6 s1 of None \<Rightarrow> None
            | Some (us, s2) \<Rightarrow> if s2 = [] then Some us else None))"

text \<open>
  The datetime validator on a JSON string, for the form \<open>isoformat\<close> writes.  (pydantic
  also accepts other spellings: a space for \<open>T\<close>, a time zone, shorter fractions, a
  number of seconds.  They are not modelled: such a text counts as invalid here.)
\<close>

definition parse_datetime :: "string \<Rightarrow> datetime option" where
  "parse_datetime s =
     Option.bind (take_num 4 s) (\<lambda>(y, s1).
     Option.bind (expect (CHR ''-'') s1) (\<lambda>s2.
     Option.bind (take_num 2 s2) (\<lambda>(mo, s3).
     Option.bind (expect (CHR ''-'') s3) (\<lambda>s4.
     Option.bind (take_num 2 s4) (\<lambda>(dd, s5).
     Option.bind (expect (CHR ''T'') s5) (\<lambda>s6.
     Option.bind (take_num 2 s6) (\<lambda>(h, s7).
     Option.bind (expect (CHR '':'') s7) (\<lambda>s8.
     Option.bind (take_num 2 s8) (\<lambda>(mi, s9).
     Option.bind (expect (CHR '':'') s9) (\<lambda>s10.
     Option.bind (take_num 2 s10) (\<lambda>(se, s11).
     Option.bind (parse_fraction s11) (\<lambda>us.
       (let d = \<lparr>year = y, month = mo, day = dd, hour = h, minute = mi, second = se,
                  microsecond = us\<rparr>
        in if valid_datetime d then Some d else None)))))))))))))"

record WidgetCreate =
  name :: string
  category :: string
  python_code :: string
  html_code :: string

record Widget = WidgetCreate +
  widget_id :: int
  creation_date :: datetime
  usage_count :: int

text \<open>
  What \<open>json.load\<close> returns: \<open>None\<close>, booleans, integers, strings, lists and dicts
  (a dict as the list of its items).  Number literals with a fraction or an exponent,
  which become floats, are outside the model.
\<close>

datatype json =
    JNull
  | JBool bool
  | JInt int
  | JStr string
  | JArr "json list"
  | JObj "(string \<times> json) list"

text \<open>\<open>Widget.model_dump(mode='json')\<close>: the inherited fields first.\<close>

definition model_dump :: "Widget \<Rightarrow> json" where
  "model_dump x = JObj
     [(''name'', JStr (name x)), (''category'', JStr (category x)),
      (''python_code'', JStr (python_code x)), (''html_code'', JStr (html_code x)),
      (''id'', JInt (widget_id x)), (''creation_date'', JStr (isoformat (creation_date x))),
      (''usage_count'', JInt (usage_count x))]"

fun as_str :: "json option \<Rightarrow> string option" where
  "as_str (Some (JStr s)) = Some s"
| "as_str _ = None"

fun as_int :: "json option \<Rightarrow> int option" where
  "as_int (Some (JInt i)) = Some i"
| "as_int _ = None"

definition as_datetime :: "json option \<Rightarrow> datetime option" where
  "as_datetime j = (case as_str j of None \<Rightarrow> None | Some s \<Rightarrow> parse_datetime s)"

text \<open>
  \<open>models.Widget(**data)\<close>.  The double star needs a mapping: anything else is a
  \<open>TypeError\<close>.  On a dict, pydantic validates the seven fields and ignores other keys;
  a missing or ill-typed field is a \<open>ValidationError\<close>.  The validation is modelled for
  documents in the form \<open>model_dump\<close> writes (a JSON string for a \<open>str\<close> field, a JSON
  integer for an \<open>int\<close> field); pydantic's lax conversions are not modelled.  A
  \<open>ValidationError\<close> carries the name of the first field that fails in place of
  pydantic's report; the \<open>TypeError\<close> has the message of CPython 3.9 and later.
\<close>

fun json_type_name :: "json \<Rightarrow> string" where
  "json_type_name JNull = ''NoneType''"
| "json_type_name (JBool b) = ''bool''"
| "json_type_name (JInt i) = ''int''"
| "json_type_name (JStr s) = ''str''"
| "json_type_name (JArr js) = ''list''"
| "json_type_name (JObj kv) = ''dict''"

definition field :: "string \<Rightarrow> 'a option \<Rightarrow> (('a \<Rightarrow> exn + 'b) \<Rightarrow> exn + 'b)" where
  "field k v f = (case v of None \<Rightarrow> Inl (ValidationError k) | Some x \<Rightarrow> f x)"

definition Widget_validate :: "(string \<times> json) list \<Rightarrow> exn + Widget" where
  "Widget_validate kv =
     field ''name'' (as_str (map_of kv ''name'')) (\<lambda>n.
     field ''category'' (as_str (map_of kv ''category'')) (\<lambda>c.
     field ''python_code'' (as_str (map_of kv ''python_code'')) (\<lambda>p.
     field ''html_code'' (as_str (map_of kv ''html_code'')) (\<lambda>h.
     field ''id'' (as_int (map_of kv ''id'')) (\<lambda>i.
     field ''creation_date'' (as_datetime (map_of kv ''creation_date'')) (\<lambda>d.
     field ''usage_count'' (as_int (map_of kv ''usage_count'')) (\<lambda>u.
       Inr \<lparr>name = n, category = c, python_code = p, html_code = h,
            widget_id = i, creation_date = d, usage_count = u\<rparr>)))))))"

fun Widget_of :: "json \<Rightarrow> exn + Widget" where
  "Widget_of (JObj kv) = Widget_validate kv"
| "Widget_of j =
     Inl (TypeError (''backend.models.Widget() argument after ** must be a mapping, not ''
                     @ json_type_name j))"

section \<open>db.py\<close>

text \<open>
  A file of the widgets directory is abstracted by what \<open>json.load\<close> makes of it:
  \<open>Json_text j\<close> is a file whose text decodes to \<open>j\<close> (\<open>json.dump\<close> of \<open>j\<close> writes such
  a file), \<open>Not_json s m\<close> a file whose content \<open>s\<close> is not a JSON document and that
  the decoder rejects with the message \<open>m\<close>.
\<close>

datatype disk_file = Json_text json | Not_json string string

fun json_load :: "disk_file \<Rightarrow> exn + json" where
  "json_load (Json_text j) = Inr j"
| "json_load (Not_json s m) = Inl (JSONDecodeError m)"

text \<open>
  The state the backend works on.  \<open>widgets_dir\<close> is the directory \<open>WIDGETS_DIR\<close>: \<open>None\<close>
  when it does not exist, else its entries (file name, content) in the order \<open>os.listdir\<close>
  gives them.  \<open>files\<close> holds the other files the backend touches (the temporary code
  bundle, the uploads) by path.  \<open>sys_modules\<close> is the interpreter's module registry:
  module name to the path the module was created from.  Paths are compared as strings.
\<close>

record world =
  widgets_dir :: "(string \<times> disk_file) list option"
  files :: "string \<rightharpoonup> string"
  sys_modules :: "string \<rightharpoonup> string"

text \<open>\<open>os.path.join(WIDGETS_DIR, f"{widget_id}.json")\<close>, as a name inside the directory.\<close>

definition record_name :: "int \<Rightarrow> string" where
  "record_name wid = str_int wid @ ''.json''"

text \<open>The file behind a name of the widgets directory; \<open>None\<close> is \<open>not os.path.exists\<close>.\<close>

definition widget_file :: "world \<Rightarrow> string \<Rightarrow> disk_file option" where
  "widget_file w fname = (case widgets_dir w of None \<Rightarrow> None | Some d \<Rightarrow> map_of d fname)"

text \<open>
  \<open>open(file_path, "w")\<close> followed by \<open>json.dump\<close>: fails when the directory is missing,
  replaces the file's content or adds the file.
\<close>

definition write_record :: "string \<Rightarrow> json \<Rightarrow> world \<Rightarrow> exn + world" where
  "write_record fname j w =
     (case widgets_dir w of
        None \<Rightarrow> Inl (OSError ''No such file or directory'')
      | Some d \<Rightarrow> Inr (w\<lparr>widgets_dir := Some (AList.update fname (Json_text j) d)\<rparr>))"

text \<open>
  \<open>int(x)\<close> on a float truncates towards zero; on the value of a double this is exact.
\<close>

definition py_int :: "real \<Rightarrow> int" where
  "py_int x = (if 0 \<le> x then \<lfloor>x\<rfloor> else \<lceil>x\<rceil>)"

text \<open>
  \<open>create_widget\<close>.  \<open>now_ms\<close> is the double that the expression \<open>time.time() * 1000\<close>
  evaluates to, taken as the real number it denotes (the clock and the rounding of the
  floating-point product belong to the environment), and \<open>utcnow\<close> is what
  \<open>datetime.utcnow()\<close> returns.
\<close>

definition create_widget ::
  "real \<Rightarrow> datetime \<Rightarrow> WidgetCreate \<Rightarrow> world \<Rightarrow> exn + (Widget \<times> world)" where
  "create_widget now_ms utcnow widget_data w =
     (let wid = py_int now_ms;
          new_widget = \<lparr>name = name widget_data, category = category widget_data,
                        python_code = python_code widget_data,
                        html_code = html_code widget_data,
                        widget_id = wid, creation_date = utcnow, usage_count = 0\<rparr>
      in case write_record (record_name wid) (model_dump new_widget) w of
           Inl e \<Rightarrow> Inl e
         | Inr w' \<Rightarrow> Inr (new_widget, w'))"

text \<open>\<open>json.load(f)\<close> followed by \<open>models.Widget(**data)\<close>.\<close>

definition load_widget :: "disk_file \<Rightarrow> exn + Widget" where
  "load_widget f = (case json_load f of Inl e \<Rightarrow> Inl e | Inr data \<Rightarrow> Widget_of data)"

definition get_widget_by_id :: "int \<Rightarrow> world \<Rightarrow> exn + Widget option" where
  "get_widget_by_id wid w =
     (case widget_file w (record_name wid) of
        None \<Rightarrow> Inr None
      | Some f \<Rightarrow> (case load_widget f of Inl e \<Rightarrow> Inl e | Inr x \<Rightarrow> Inr (Some x)))"

definition endswith :: "string \<Rightarrow> string \<Rightarrow> bool" where
  "endswith s suf = (length suf \<le> length s \<and> drop (length s - length suf) s = suf)"

definition warning :: "string \<Rightarrow> exn \<Rightarrow> string" where
  "warning filename e = ''Warning: Could not parse '' @ filename @ '': '' @ exn_str e"

text \<open>
  The loop of \<open>get_all_widgets\<close> over the sorted names: the widgets collected so far and
  the warnings printed so far are accumulators.  The handler catches \<open>JSONDecodeError\<close>
  and \<open>TypeError\<close>; any other exception leaves the loop and the function.
\<close>

fun list_loop ::
  "(string \<times> disk_file) list \<Rightarrow> string list \<Rightarrow> Widget list \<Rightarrow> string list \<Rightarrow>
   exn + (Widget list \<times> string list)" where
  "list_loop d [] widgets printed = Inr (widgets, printed)"
| "list_loop d (filename # rest) widgets printed =
     (if endswith filename ''.json'' then
        (case map_of d filename of
           None \<Rightarrow> Inl (OSError ''No such file or directory'')
         | Some f \<Rightarrow>
             (case load_widget f of
                Inr x \<Rightarrow> list_loop d rest (widgets @ [x]) printed
              | Inl e \<Rightarrow>
                  (case e of
                     JSONDecodeError m \<Rightarrow> list_loop d rest widgets (printed @ [warning filename e])
                   | TypeError m \<Rightarrow> list_loop d rest widgets (printed @ [warning filename e])
                   | _ \<Rightarrow> Inl e)))
      else list_loop d rest widgets printed)"

text \<open>\<open>sorted(os.listdir(WIDGETS_DIR), reverse=True)\<close>: names in descending string order.\<close>

definition listing_order :: "(string \<times> disk_file) list \<Rightarrow> string list" where
  "listing_order d = rev (sort (map fst d))"

definition get_all_widgets :: "world \<Rightarrow> exn + (Widget list \<times> string list)" where
  "get_all_widgets w =
     (case widgets_dir w of
        None \<Rightarrow> Inr ([], [])
      | Some d \<Rightarrow> list_loop d (listing_order d) [] [])"

definition increment_usage_count :: "int \<Rightarrow> world \<Rightarrow> exn + world" where
  "increment_usage_count wid w =
     (case get_widget_by_id wid w of
        Inl e \<Rightarrow> Inl e
      | Inr None \<Rightarrow> Inr w
      | Inr (Some widget) \<Rightarrow>
          write_record (record_name wid)
            (model_dump (widget\<lparr>usage_count := usage_count widget + 1\<rparr>)) w)"

section \<open>widget\_runner.py\<close>

text \<open>
  The input mapping of an execution and what running code does: it may change the world
  in any way and either returns a value or raises.
\<close>

type_synonym inputs = "string \<rightharpoonup> pyval"

type_synonym 'a effect = "world \<Rightarrow> (exn + 'a) \<times> world"

text \<open>
  The attribute \<open>run_widget\<close> of a loaded module: a function, or some value that is not
  callable.
\<close>

datatype attr = Function "inputs \<Rightarrow> pyval effect" | Value pyval

text \<open>
  The interpreter is a parameter \<open>py\<close> of the executor.  \<open>compile_source\<close> is the meaning
  of a source text: a compile error (\<open>SyntaxError\<close>), or what executing the module body
  does; the body either raises or leaves a module, of which only the attribute
  \<open>run_widget\<close> matters (\<open>None\<close>: the module has no such attribute).  \<open>cache_tag\<close> is
  \<open>sys.implementation.cache_tag\<close>, the tag in the name of a bytecode cache file.
\<close>

record python =
  compile_source :: "string \<Rightarrow> exn + attr option effect"
  cache_tag :: string

definition module_name_str :: string where
  "module_name_str = ''dynamic_widget_module''"

text \<open>\<open>if module_name_str in sys.modules: del sys.modules[module_name_str]\<close>\<close>

definition evict :: "world \<Rightarrow> world" where
  "evict w = w\<lparr>sys_modules := (sys_modules w)(module_name_str := None)\<rparr>"

text \<open>\<open>sys.modules[module_name_str] = widget_module\<close>\<close>

definition register_unit :: "string \<Rightarrow> world \<Rightarrow> world" where
  "register_unit python_file_path w =
     w\<lparr>sys_modules := (sys_modules w)(module_name_str \<mapsto> python_file_path)\<rparr>"

text \<open>
  \<open>spec_from_file_location\<close> returns no spec when no loader fits the path's suffix; of
  the suffixes with a loader only \<open>.py\<close> is modelled.
\<close>

definition has_loader :: "string \<Rightarrow> bool" where
  "has_loader python_file_path = endswith python_file_path ''.py''"

text \<open>
  \<open>importlib.util.cache_from_source\<close>: the bytecode cache file of \<open>dir/name.py\<close> is
  \<open>dir/__pycache__/name.<tag>.pyc\<close>.  (Modelled for paths of this form, with a directory
  part and a name before the suffix, as \<open>NamedTemporaryFile\<close> returns them.)
\<close>

definition cache_from_source :: "string \<Rightarrow> string \<Rightarrow> string" where
  "cache_from_source tag path =
     (let head = rev (dropWhile (\<lambda>c. c \<noteq> CHR ''/'') (rev path));
          tail = rev (takeWhile (\<lambda>c. c \<noteq> CHR ''/'') (rev path));
          base = rev (drop 1 (dropWhile (\<lambda>c. c \<noteq> CHR ''.'') (rev tail)))
      in head @ ''__pycache__/'' @ base @ ''.'' @ tag @ ''.pyc'')"

text \<open>
  \<open>spec.loader.exec_module(widget_module)\<close>: the source loader reads the file (a
  missing file raises \<open>FileNotFoundError\<close>) and compiles it; when that succeeds it writes the bytecode to the cache file and then
  executes the module body.  (The content of the cache file is represented by the source
  it was compiled from.  That the loader skips the write when it fails, and reuses a
  cache file that is up to date, is not modelled.)
\<close>

definition file_not_found :: "string \<Rightarrow> exn" where
  "file_not_found path =
     Raised ''FileNotFoundError'' (''[Errno 2] No such file or directory: '' @ quoted path)"

definition exec_module :: "python \<Rightarrow> string \<Rightarrow> attr option effect" where
  "exec_module py python_file_path w =
     (case files w python_file_path of
        None \<Rightarrow> (Inl (file_not_found python_file_path), w)
      | Some source \<Rightarrow>
          (case compile_source py source of
             Inl e \<Rightarrow> (Inl e, w)
           | Inr body \<Rightarrow>
               body (w\<lparr>files := (files w)
                       (cache_from_source (cache_tag py) python_file_path \<mapsto> ''pyc:'' @ source)\<rparr>)))"

definition missing_run_widget :: exn where
  "missing_run_widget =
     AttributeError ''Widget code is missing the required 'run_widget' function.''"

text \<open>Calling a value that is not callable.\<close>

definition not_callable :: "pyval \<Rightarrow> exn" where
  "not_callable v = TypeError (quoted (type_name v) @ '' object is not callable'')"

text \<open>The body of the \<open>try\<close> statement of \<open>execute_widget_code\<close>.\<close>

definition load_and_run :: "python \<Rightarrow> string \<Rightarrow> inputs \<Rightarrow> pyval effect" where
  "load_and_run py python_file_path inputs w =
     (if \<not> has_loader python_file_path
      then (Inl (ImportError (''Cannot create module spec from '' @ python_file_path)), w)
      else
        (case exec_module py python_file_path (register_unit python_file_path w) of
           (Inl e, w') \<Rightarrow> (Inl e, w')
         | (Inr None, w') \<Rightarrow> (Inl missing_run_widget, w')
         | (Inr (Some (Value v)), w') \<Rightarrow> (Inl (not_callable v), w')
         | (Inr (Some (Function run_function)), w') \<Rightarrow> run_function inputs w'))"

text \<open>
  \<open>execute_widget_code\<close>: the eviction of an old unit, the \<open>try\<close> body, whose exception
  the handler prints and re-raises as it is, and the \<open>finally\<close> clause.
\<close>

definition execute_widget_code :: "python \<Rightarrow> string \<Rightarrow> inputs \<Rightarrow> pyval effect" where
  "execute_widget_code py python_file_path inputs w =
     (case load_and_run py python_file_path inputs (evict w) of
        (r, w') \<Rightarrow> (r, evict w'))"

section \<open>main.py\<close>

text \<open>
  A value of the request form: a text field, or an upload (file name, content).
\<close>

datatype form_value = Field string | Upload string string

text \<open>
  What the request and the operating system contribute to one call of the endpoint: the
  name \<open>NamedTemporaryFile\<close> picks before the suffix (\<open>None\<close>: the file cannot be
  created), the form (\<open>await request.form()\<close> may raise), and the paths that can be opened
  for writing.
\<close>

record request_env =
  tmp_name :: "string option"
  form :: "exn + (string \<times> form_value) list"
  can_write :: "string \<Rightarrow> bool"

datatype response = JSONResponse nat string string

text \<open>
  The loop over \<open>form_data.items()\<close>.  It returns the inputs or the exception that left
  the loop, together with \<open>temp_file_paths\<close> and the world.
\<close>

fun marshal ::
  "(string \<Rightarrow> bool) \<Rightarrow> (string \<times> form_value) list \<Rightarrow> inputs \<Rightarrow> string list \<Rightarrow> world \<Rightarrow>
   (exn + inputs) \<times> string list \<times> world" where
  "marshal cw [] inputs temp_file_paths w = (Inr inputs, temp_file_paths, w)"
| "marshal cw ((key, Field v) # rest) inputs temp_file_paths w =
     marshal cw rest (inputs(key \<mapsto> PyStr v)) temp_file_paths w"
| "marshal cw ((key, Upload filename content) # rest) inputs temp_file_paths w =
     (if filename \<noteq> [] then
        (let temp_file_path = ''uploads/'' @ filename;
             temp_file_paths' = temp_file_paths @ [temp_file_path]
         in if cw temp_file_path
            then marshal cw rest (inputs(key \<mapsto> PyStr temp_file_path)) temp_file_paths'
                   (w\<lparr>files := (files w)(temp_file_path \<mapsto> content)\<rparr>)
            else (Inl (OSError ''Permission denied''), temp_file_paths', w))
      else marshal cw rest (inputs(key \<mapsto> PyUploadFile filename content)) temp_file_paths w)"

text \<open>\<open>if os.path.exists(path): os.remove(path)\<close>\<close>

definition remove_if_exists :: "string \<Rightarrow> world \<Rightarrow> world" where
  "remove_if_exists path w =
     (if files w path \<noteq> None then w\<lparr>files := (files w)(path := None)\<rparr> else w)"

text \<open>The \<open>finally\<close> clause of the endpoint.\<close>

definition cleanup :: "string option \<Rightarrow> string list \<Rightarrow> world \<Rightarrow> world" where
  "cleanup temp_py_file temp_file_paths w =
     fold remove_if_exists temp_file_paths
       (case temp_py_file of None \<Rightarrow> w | Some p \<Rightarrow> remove_if_exists p w)"

text \<open>
  The body of the endpoint's \<open>try\<close> statement.  Besides the output text or the exception
  it returns what the \<open>finally\<close> clause reads: the temporary file's path, if the file was
  created, and \<open>temp_file_paths\<close>.
\<close>

definition run_body ::
  "python \<Rightarrow> request_env \<Rightarrow> int \<Rightarrow> Widget \<Rightarrow> world \<Rightarrow>
   (exn + string) \<times> string option \<times> string list \<times> world" where
  "run_body py env wid widget w =
     (case tmp_name env of
        None \<Rightarrow> (Inl (OSError ''cannot create temporary file''), None, [], w)
      | Some n \<Rightarrow>
          (let temp_py_path = n @ ''.py'';
               w1 = w\<lparr>files := (files w)(temp_py_path \<mapsto> python_code widget)\<rparr>
           in case form env of
                Inl e \<Rightarrow> (Inl e, Some temp_py_path, [], w1)
              | Inr form_data \<Rightarrow>
                  (case marshal (can_write env) form_data Map.empty [] w1 of
                     (Inl e, paths, w2) \<Rightarrow> (Inl e, Some temp_py_path, paths, w2)
                   | (Inr inputs, paths, w2) \<Rightarrow>
                       (case execute_widget_code py temp_py_path inputs w2 of
                          (Inl e, w3) \<Rightarrow> (Inl e, Some temp_py_path, paths, w3)
                        | (Inr result, w3) \<Rightarrow>
                            (case increment_usage_count wid w3 of
                               Inl e \<Rightarrow> (Inl e, Some temp_py_path, paths, w3)
                             | Inr w4 \<Rightarrow>
                                 (Inr (py_str result), Some temp_py_path, paths, w4))))))"

text \<open>
  \<open>run_widget_endpoint\<close>.  An exception of the store's read and the 404 are raised before
  the \<open>try\<close> statement.  Inside it, \<open>except Exception\<close> turns an exception into the error
  response; one that is not an \<open>Exception\<close> passes through.  The \<open>finally\<close> clause runs
  in every case.
\<close>

definition run_widget_endpoint ::
  "python \<Rightarrow> request_env \<Rightarrow> int \<Rightarrow> world \<Rightarrow> (exn + response) \<times> world" where
  "run_widget_endpoint py env wid w =
     (case get_widget_by_id wid w of
        Inl e \<Rightarrow> (Inl e, w)
      | Inr None \<Rightarrow> (Inl (HTTPException 404 ''Widget data not found.''), w)
      | Inr (Some widget) \<Rightarrow>
          (case run_body py env wid widget w of
             (r, temp_py_file, temp_file_paths, w') \<Rightarrow>
               ((case r of
                   Inr out \<Rightarrow> Inr (JSONResponse 200 ''output'' out)
                 | Inl e \<Rightarrow>
                     if is_Exception e
                     then Inr (JSONResponse 500 ''error''
                            (''An error occurred during execution: '' @ exn_str e))
                     else Inl e),
                cleanup temp_py_file temp_file_paths w')))"

section \<open>Sample data\<close>

text \<open>
  Concrete inputs on which the theorems below are instantiated.  The widget is the one of
  the specification's scenario: its entry point returns \<open>inputs["a"] + inputs["b"]\<close>.
  Python's \<open>+\<close> concatenates two strings and adds two integers (the message of the
  \<open>TypeError\<close> for other operands is abbreviated); a missing key raises \<open>KeyError\<close>.
\<close>

fun py_add :: "pyval \<Rightarrow> pyval \<Rightarrow> exn + pyval" where
  "py_add (PyStr a) (PyStr b) = Inr (PyStr (a @ b))"
| "py_add (PyInt a) (PyInt b) = Inr (PyInt (a + b))"
| "py_add a b = Inl (TypeError ''unsupported operand type(s) for +'')"

definition subscript :: "inputs \<Rightarrow> string \<Rightarrow> exn + pyval" where
  "subscript inputs k = (case inputs k of None \<Rightarrow> Inl (KeyError k) | Some v \<Rightarrow> Inr v)"

definition sum_run_widget :: "inputs \<Rightarrow> pyval effect" where
  "sum_run_widget inputs w =
     (case subscript inputs ''a'' of
        Inl e \<Rightarrow> (Inl e, w)
      | Inr a \<Rightarrow> (case subscript inputs ''b'' of
                    Inl e \<Rightarrow> (Inl e, w)
                  | Inr b \<Rightarrow> (py_add a b, w)))"

definition sum_source :: string where
  "sum_source = ''def run_widget(inputs): return inputs['a'] + inputs['b']''"

text \<open>
  A widget whose entry point returns the path of the unit that is registered under the
  executor's module name at the time it runs (\<open>None\<close> when there is none).
\<close>

definition probe_run_widget :: "inputs \<Rightarrow> pyval effect" where
  "probe_run_widget inputs w =
     (Inr (case sys_modules w module_name_str of None \<Rightarrow> PyNone | Some p \<Rightarrow> PyStr p), w)"

definition probe_source :: string where
  "probe_source =
     ''import sys; run_widget = lambda inputs: getattr(sys.modules.get('dynamic_widget_module'), '__file__', None)''"

text \<open>The interpreter of a process that only ever loads the probe.\<close>

definition py_probe :: python where
  "py_probe =
     \<lparr>compile_source = (\<lambda>source.
        if source = probe_source then Inr (\<lambda>w. (Inr (Some (Function probe_run_widget)), w))
        else Inl (Raised ''SyntaxError'' ''invalid syntax'')),
      cache_tag = ''cpython-311''\<rparr>"

text \<open>
  A widget whose entry point probes the registry, then itself invokes the executor on
  the bundle \<open>/tmp/inner.py\<close>, probes again, and returns the three results: its own
  probe before, the result of the inner invocation, its own probe after.
\<close>

definition nested_run_widget :: "inputs \<Rightarrow> pyval effect" where
  "nested_run_widget inputs w =
     (case probe_run_widget inputs w of
        (Inl e, w1) \<Rightarrow> (Inl e, w1)
      | (Inr before, w1) \<Rightarrow>
          (case execute_widget_code py_probe ''/tmp/inner.py'' inputs w1 of
             (Inl e, w2) \<Rightarrow> (Inl e, w2)
           | (Inr inner, w2) \<Rightarrow>
               (case probe_run_widget inputs w2 of
                  (Inl e, w3) \<Rightarrow> (Inl e, w3)
                | (Inr after, w3) \<Rightarrow>
                    (Inr (PyStr (py_str before @ '' '' @ py_str inner @ '' '' @ py_str after)),
                     w3))))"

definition nested_source :: string where
  "nested_source =
     ''import sys, widget_runner; probe = lambda: getattr(sys.modules.get('dynamic_widget_module'), '__file__', None); run_widget = lambda inputs: ' '.join([str(probe()), str(widget_runner.execute_widget_code('/tmp/inner.py', inputs)), str(probe())])''"

text \<open>
  An interpreter that knows six sample sources (the three widgets above, a module without
  \<open>run_widget\<close>, a module whose \<open>run_widget\<close> is the number 5, a module whose body
  raises) and rejects every other text with a syntax error.
\<close>

definition py_sum :: python where
  "py_sum =
     \<lparr>compile_source = (\<lambda>source.
        if source = sum_source then Inr (\<lambda>w. (Inr (Some (Function sum_run_widget)), w))
        else if source = probe_source
          then Inr (\<lambda>w. (Inr (Some (Function probe_run_widget)), w))
        else if source = nested_source
          then Inr (\<lambda>w. (Inr (Some (Function nested_run_widget)), w))
        else if source = ''x = 1'' then Inr (\<lambda>w. (Inr None, w))
        else if source = ''run_widget = 5'' then Inr (\<lambda>w. (Inr (Some (Value (PyInt 5))), w))
        else if source = ''1/0''
          then Inr (\<lambda>w. (Inl (Raised ''ZeroDivisionError'' ''division by zero''), w))
        else Inl (Raised ''SyntaxError'' ''invalid syntax'')),
      cache_tag = ''cpython-311''\<rparr>"

definition example_time :: datetime where
  "example_time = \<lparr>year = 2023, month = 11, day = 14, hour = 22, minute = 13, second = 20,
                    microsecond = 60\<rparr>"

definition example_data :: WidgetCreate where
  "example_data = \<lparr>name = ''Adder'', category = ''numerical'', python_code = sum_source,
                    html_code = ''<button type=submit>Run</button>''\<rparr>"

definition sum_widget :: Widget where
  "sum_widget = \<lparr>name = ''Adder'', category = ''numerical'', python_code = sum_source,
                  html_code = ''<button type=submit>Run</button>'',
                  widget_id = 1700000000000, creation_date = example_time, usage_count = 0\<rparr>"

definition empty_world :: world where
  "empty_world = \<lparr>widgets_dir = Some [], files = Map.empty, sys_modules = Map.empty\<rparr>"

definition sum_world :: world where
  "sum_world = \<lparr>widgets_dir = Some [(''1700000000000.json'', Json_text (model_dump sum_widget))],
                 files = Map.empty, sys_modules = Map.empty\<rparr>"

definition corrupt_world :: world where
  "corrupt_world =
     \<lparr>widgets_dir = Some
        [(''7.json'', Not_json ''{''
            ''Expecting property name enclosed in double quotes: line 1 column 2 (char 1)''),
         (''8.json'', Json_text (JObj []))],
      files = Map.empty, sys_modules = Map.empty\<rparr>"

definition example_env :: request_env where
  "example_env = \<lparr>tmp_name = Some ''/tmp/tmpab12cd'',
                   form = Inr [(''a'', Field ''2''), (''b'', Field ''3'')],
                   can_write = (\<lambda>p. True)\<rparr>"

definition upload_env :: request_env where
  "upload_env = \<lparr>tmp_name = Some ''/tmp/tmpab12cd'',
                  form = Inr [(''a'', Field ''2''), (''img'', Upload ''cat.png'' ''PNG'')],
                  can_write = (\<lambda>p. True)\<rparr>"

text \<open>
  The sample world after one successful run of the sample widget: the counter is 1 and
  the bytecode cache file of the temporary code file is left behind.
\<close>

definition after_run :: world where
  "after_run = \<lparr>widgets_dir = Some [(''1700000000000.json'',
                    Json_text (model_dump (sum_widget\<lparr>usage_count := 1\<rparr>)))],
                 files = [''/tmp/__pycache__/tmpab12cd.cpython-311.pyc'' \<mapsto> ''pyc:'' @ sum_source],
                 sys_modules = Map.empty\<rparr>"

text \<open>
  A world whose only file is a code bundle with the given source, and the same world
  while another invocation's unit is registered under the executor's module name.
\<close>

definition bundle_world :: "string \<Rightarrow> world" where
  "bundle_world source =
     \<lparr>widgets_dir = Some [], files = [''/tmp/w.py'' \<mapsto> source], sys_modules = Map.empty\<rparr>"

definition busy_world :: "string \<Rightarrow> world" where
  "busy_world source =
     \<lparr>widgets_dir = Some [], files = [''/tmp/w.py'' \<mapsto> source],
      sys_modules = [module_name_str \<mapsto> ''/tmp/other.py'']\<rparr>"

definition busy_sum_world :: world where
  "busy_sum_world = sum_world\<lparr>sys_modules := [module_name_str \<mapsto> ''/tmp/other.py'']\<rparr>"

text \<open>A world with the nesting widget's bundle and the bundle it invokes.\<close>

definition nested_world :: world where
  "nested_world =
     \<lparr>widgets_dir = Some [],
      files = [''/tmp/outer.py'' \<mapsto> nested_source, ''/tmp/inner.py'' \<mapsto> probe_source],
      sys_modules = Map.empty\<rparr>"

text \<open>A request whose upload cannot be written.\<close>

definition denied_env :: request_env where
  "denied_env = \<lparr>tmp_name = Some ''/tmp/tmpab12cd'',
                  form = Inr [(''a'', Field ''2''), (''img'', Upload ''cat.png'' ''PNG'')],
                  can_write = (\<lambda>p. False)\<rparr>"


definition new_time :: datetime where
  "new_time = \<lparr>year = 2286, month = 11, day = 20, hour = 17, minute = 46, second = 40,
                microsecond = 0\<rparr>"


definition new_widget :: Widget where
  "new_widget = sum_widget\<lparr>widget_id := 10000000000000, creation_date := new_time\<rparr>"




section \<open>Vocabulary of the statements\<close>

text \<open>
  The upload paths one run of the marshalling loop writes: the paths of the uploads with
  a file name, in order, up to the first one that cannot be opened for writing.
\<close>

fun materialized :: "(string \<Rightarrow> bool) \<Rightarrow> (string \<times> form_value) list \<Rightarrow> string list" where
  "materialized cw [] = []"
| "materialized cw ((key, Field v) # rest) = materialized cw rest"
| "materialized cw ((key, Upload filename content) # rest) =
     (if filename \<noteq> [] then
        (if cw (''uploads/'' @ filename) then (''uploads/'' @ filename) # materialized cw rest
         else [])
      else materialized cw rest)"

text \<open>The paths of all uploads of a form that have a file name.\<close>

fun upload_paths :: "(string \<times> form_value) list \<Rightarrow> string list" where
  "upload_paths [] = []"
| "upload_paths ((key, Field v) # rest) = upload_paths rest"
| "upload_paths ((key, Upload filename content) # rest) =
     (if filename \<noteq> [] then (''uploads/'' @ filename) # upload_paths rest
      else upload_paths rest)"

text \<open>
  Whether a call of the endpoint gets as far as calling the executor: the temporary file
  was created, the form was read, and every upload could be written.
\<close>

definition executor_reached :: "request_env \<Rightarrow> bool" where
  "executor_reached env =
     (case tmp_name env of
        None \<Rightarrow> False
      | Some n \<Rightarrow>
          (case form env of
             Inl e \<Rightarrow> False
           | Inr form_data \<Rightarrow> list_all (can_write env) (upload_paths form_data)))"

text \<open>
  The state in which the body of a bundle starts to execute when the executor is called
  in \<open>w\<close>: the unit is registered under the executor's module name and the bytecode
  cache file is written.
\<close>

definition load_state :: "string \<Rightarrow> string \<Rightarrow> string \<Rightarrow> world \<Rightarrow> world" where
  "load_state tag path source w =
     w\<lparr>sys_modules := (sys_modules w)(''dynamic_widget_module'' \<mapsto> path),
       files := (files w)(cache_from_source tag path \<mapsto> ''pyc:'' @ source)\<rparr>"

text \<open>The state with the executor's module name unbound.\<close>

definition unbound :: "world \<Rightarrow> world" where
  "unbound w = w\<lparr>sys_modules := (sys_modules w)(''dynamic_widget_module'' := None)\<rparr>"





section \<open>Helper facts on decimal text\<close>

lemma length_zfill [simp]: "length (zfill k n) = k"
  by (induction k arbitrary: n) auto

lemma char_digit_digit_char [simp]:
  assumes "d < 10"
  shows "char_digit (digit_char d) = Some d"
proof -
  from assms have "d = 0 \<or> d = 1 \<or> d = 2 \<or> d = 3 \<or> d = 4 \<or> d = 5 \<or> d = 6 \<or> d = 7 \<or>
    d = 8 \<or> d = 9"
    by arith
  then show ?thesis
    by (elim disjE) (simp_all add: char_digit_def digit_char_def)
qed

lemma read_digits_snoc:
  "read_digits (xs @ [c]) acc =
     (case read_digits xs acc of None \<Rightarrow> None
      | Some m \<Rightarrow> (case char_digit c of None \<Rightarrow> None | Some d \<Rightarrow> Some (m * 10 + d)))"
  by (induction xs arbitrary: acc) (auto split: option.splits)

lemma read_digits_zfill: "read_digits (zfill k n) 0 = Some (n mod 10 ^ k)"
proof (induction k arbitrary: n)
  case 0
  show ?case by simp
next
  case (Suc k)
  have "(n div 10) mod 10 ^ k * 10 + n mod 10 = n mod (10 * 10 ^ k)"
    by (simp add: mod_mult2_eq mult.commute)
  with Suc show ?case by (simp add: read_digits_snoc)
qed

lemma take_num_zfill:
  "n < 10 ^ k \<Longrightarrow> take_num k (zfill k n @ rest) = Some (n, rest)"
  by (simp add: take_num_def read_digits_zfill)

section \<open>The record round trip\<close>

lemma parse_fraction_zfill:
  "us < 1000000 \<Longrightarrow> parse_fraction (if us = 0 then [] else CHR ''.'' # zfill 6 us) = Some us"
  using take_num_zfill [of us 6 "[]"] by (simp add: parse_fraction_def)

lemma parse_datetime_isoformat:
  assumes "valid_datetime d"
  shows "parse_datetime (isoformat d) = Some d"
proof -
  have b: "year d < 10 ^ 4" "month d < 10 ^ 2" "day d < 10 ^ 2" "hour d < 10 ^ 2"
    "minute d < 10 ^ 2" "second d < 10 ^ 2" "microsecond d < 1000000"
    using assms by (auto simp: valid_datetime_def days_in_month_def split: if_splits)
  have e: "\<lparr>year = year d, month = month d, day = day d, hour = hour d,
      minute = minute d, second = second d, microsecond = microsecond d\<rparr> = d"
    by (cases d) simp
  show ?thesis
    unfolding parse_datetime_def isoformat_def
    using assms
    by (simp add: e take_num_zfill [OF b(1)] take_num_zfill [OF b(2)] take_num_zfill [OF b(3)]
        take_num_zfill [OF b(4)] take_num_zfill [OF b(5)] take_num_zfill [OF b(6)]
        parse_fraction_zfill [OF b(7)] Let_def del: zfill.simps)
qed

lemma Widget_of_model_dump:
  "valid_datetime (creation_date x) \<Longrightarrow> Widget_of (model_dump x) = Inr x"
  by (simp add: model_dump_def Widget_validate_def field_def as_datetime_def
      parse_datetime_isoformat)

lemma parse_datetime_valid: "parse_datetime s = Some d \<Longrightarrow> valid_datetime d"
  unfolding parse_datetime_def
  by (auto simp: bind_eq_Some_conv Let_def split: if_splits)

lemma Widget_validate_valid:
  "Widget_validate kv = Inr x \<Longrightarrow> valid_datetime (creation_date x)"
  unfolding Widget_validate_def field_def as_datetime_def
  by (auto split: option.splits dest: parse_datetime_valid)

lemma load_widget_valid: "load_widget f = Inr x \<Longrightarrow> valid_datetime (creation_date x)"
proof (cases f)
  case (Json_text j)
  assume "load_widget f = Inr x"
  with Json_text show ?thesis
    by (cases j) (auto simp: load_widget_def dest: Widget_validate_valid)
next
  case (Not_json s m)
  assume "load_widget f = Inr x"
  with Not_json show ?thesis by (simp add: load_widget_def)
qed

section \<open>The store\<close>

lemma widget_file_write_record:
  "write_record fname j w = Inr w' \<Longrightarrow>
     widget_file w' n = (if n = fname then Some (Json_text j) else widget_file w n)"
  by (auto simp: write_record_def widget_file_def update_conv' split: option.splits)

lemma write_record_frame:
  "write_record fname j w = Inr w' \<Longrightarrow> files w' = files w \<and> sys_modules w' = sys_modules w"
  by (auto simp: write_record_def split: option.splits)

lemma valid_example_time: "valid_datetime example_time"
  by (simp add: valid_datetime_def example_time_def days_in_month_def)

lemma record_name_sum: "record_name 1700000000000 = ''1700000000000.json''"
  by (simp add: record_name_def str_int_def str_nat.simps digit_char_def)

lemma load_sum_widget: "load_widget (Json_text (model_dump sum_widget)) = Inr sum_widget"
  using Widget_of_model_dump [of sum_widget] valid_example_time
  by (simp add: load_widget_def sum_widget_def)

lemma get_sum_widget: "get_widget_by_id 1700000000000 sum_world = Inr (Some sum_widget)"
  by (simp add: get_widget_by_id_def widget_file_def sum_world_def record_name_sum
      load_sum_widget)

text \<open>
  C4.  Reading back the id that \<open>create_widget\<close> returned gives the very record it
  returned: the record survives \<open>model_dump\<close>, the file and the validation of
  \<open>Widget(**data)\<close> unchanged.  (\<open>datetime.utcnow()\<close> returns a valid datetime.)
\<close>

theorem create_then_get:
  assumes "create_widget now utcnow widget_data w = Inr (x, w')" and "valid_datetime utcnow"
  shows "get_widget_by_id (widget_id x) w' = Inr (Some x)"
proof -
  from assms(1) have x: "creation_date x = utcnow"
    and wr: "write_record (record_name (widget_id x)) (model_dump x) w = Inr w'"
    by (auto simp: create_widget_def Let_def split: sum.splits)
  show ?thesis
    using widget_file_write_record [OF wr, of "record_name (widget_id x)"]
      Widget_of_model_dump [of x] x assms(2)
    by (simp add: get_widget_by_id_def load_widget_def)
qed

theorem create_then_get_witness:
  "create_widget 1700000000000 example_time example_data empty_world
     = Inr (sum_widget, sum_world) \<and>
   valid_datetime example_time \<and>
   get_widget_by_id (widget_id sum_widget) sum_world = Inr (Some sum_widget)"
proof -
  have c: "create_widget 1700000000000 example_time example_data empty_world
             = Inr (sum_widget, sum_world)"
    by (simp add: create_widget_def py_int_def record_name_sum write_record_def Let_def
        empty_world_def example_data_def sum_widget_def sum_world_def)
  show ?thesis
    using c valid_example_time create_then_get [OF c valid_example_time] by simp
qed

text \<open>
  C6.  When no file of the id exists, \<open>get_widget_by_id\<close> returns \<open>None\<close> (it does not
  raise), and the execution endpoint raises the 404 and leaves the whole state as it
  was: no record, no file and no module registry entry is touched.
\<close>

theorem missing_id_not_found:
  assumes "widget_file w (record_name wid) = None"
  shows "get_widget_by_id wid w = Inr None \<and>
         run_widget_endpoint py env wid w =
           (Inl (HTTPException 404 ''Widget data not found.''), w)"
  using assms by (simp add: get_widget_by_id_def run_widget_endpoint_def)

theorem missing_id_not_found_witness:
  "widget_file sum_world (record_name 5) = None \<and>
   get_widget_by_id 5 sum_world = Inr None \<and>
   run_widget_endpoint py_sum example_env 5 sum_world =
     (Inl (HTTPException 404 ''Widget data not found.''), sum_world)"
proof -
  have h: "widget_file sum_world (record_name 5) = None"
    by (simp add: widget_file_def sum_world_def record_name_def str_int_def str_nat.simps
        digit_char_def)
  show ?thesis
    using h missing_id_not_found [OF h, of py_sum example_env] by simp
qed

text \<open>
  C7.  \<open>increment_usage_count\<close> changes nothing when no file of the id exists.  When
  the record can be read, the record read afterwards is the old one with \<open>usage_count\<close>
  one higher and every other field as before; no other file of the directory, no other
  file and no registry entry changes.
\<close>

theorem increment_usage_effect:
  "(widget_file w (record_name wid) = None \<longrightarrow> increment_usage_count wid w = Inr w) \<and>
   (get_widget_by_id wid w = Inr (Some x) \<longrightarrow>
      (\<exists>w'. increment_usage_count wid w = Inr w' \<and>
            get_widget_by_id wid w' = Inr (Some (x\<lparr>usage_count := usage_count x + 1\<rparr>)) \<and>
            (\<forall>n. n \<noteq> record_name wid \<longrightarrow> widget_file w' n = widget_file w n) \<and>
            files w' = files w \<and> sys_modules w' = sys_modules w))"
proof (intro conjI impI)
  assume "widget_file w (record_name wid) = None"
  then show "increment_usage_count wid w = Inr w"
    by (simp add: increment_usage_count_def get_widget_by_id_def)
next
  assume g: "get_widget_by_id wid w = Inr (Some x)"
  then obtain f where f: "widget_file w (record_name wid) = Some f" "load_widget f = Inr x"
    by (auto simp: get_widget_by_id_def split: option.splits sum.splits)
  then obtain d where d: "widgets_dir w = Some d"
    by (auto simp: widget_file_def split: option.splits)
  let ?x = "x\<lparr>usage_count := usage_count x + 1\<rparr>"
  let ?w = "w\<lparr>widgets_dir := Some (AList.update (record_name wid) (Json_text (model_dump ?x)) d)\<rparr>"
  have wr: "write_record (record_name wid) (model_dump ?x) w = Inr ?w"
    using d by (simp add: write_record_def)
  have inc: "increment_usage_count wid w = Inr ?w"
    using g wr by (simp add: increment_usage_count_def)
  have v: "valid_datetime (creation_date ?x)"
    using load_widget_valid [OF f(2)] by simp
  have "get_widget_by_id wid ?w = Inr (Some ?x)"
    using widget_file_write_record [OF wr, of "record_name wid"] Widget_of_model_dump [OF v]
    by (simp add: get_widget_by_id_def load_widget_def)
  moreover have "\<forall>n. n \<noteq> record_name wid \<longrightarrow> widget_file ?w n = widget_file w n"
    using widget_file_write_record [OF wr] by simp
  ultimately show "\<exists>w'. increment_usage_count wid w = Inr w' \<and>
            get_widget_by_id wid w' = Inr (Some ?x) \<and>
            (\<forall>n. n \<noteq> record_name wid \<longrightarrow> widget_file w' n = widget_file w n) \<and>
            files w' = files w \<and> sys_modules w' = sys_modules w"
    using inc by (intro exI [of _ ?w]) simp
qed

theorem increment_usage_effect_witness:
  "get_widget_by_id 1700000000000 sum_world = Inr (Some sum_widget) \<and>
   (\<exists>w'. increment_usage_count 1700000000000 sum_world = Inr w' \<and>
         get_widget_by_id 1700000000000 w' = Inr (Some (sum_widget\<lparr>usage_count := 1\<rparr>)))"
  using get_sum_widget increment_usage_effect [of sum_world 1700000000000 sum_widget]
  by (auto simp: sum_widget_def)

text \<open>
  C10.  When the file of the id exists but cannot be loaded (the text is not JSON, the
  JSON is not an object, or a field fails validation), \<open>get_widget_by_id\<close> raises the
  loader's exception instead of returning \<open>None\<close>, and \<open>increment_usage_count\<close> lets the
  same exception through instead of returning normally.
\<close>

theorem unreadable_record_raises:
  assumes "widget_file w (record_name wid) = Some f" and "load_widget f = Inl e"
  shows "get_widget_by_id wid w = Inl e \<and> increment_usage_count wid w = Inl e"
  using assms by (simp add: get_widget_by_id_def increment_usage_count_def)

theorem unreadable_record_raises_witness:
  "(widget_file corrupt_world (record_name 7) =
      Some (Not_json ''{''
        ''Expecting property name enclosed in double quotes: line 1 column 2 (char 1)'') \<and>
    get_widget_by_id 7 corrupt_world = Inl (JSONDecodeError
        ''Expecting property name enclosed in double quotes: line 1 column 2 (char 1)'') \<and>
    increment_usage_count 7 corrupt_world = Inl (JSONDecodeError
        ''Expecting property name enclosed in double quotes: line 1 column 2 (char 1)'')) \<and>
   (widget_file corrupt_world (record_name 8) = Some (Json_text (JObj [])) \<and>
    load_widget (Json_text (JObj [])) = Inl (ValidationError ''name'') \<and>
    get_widget_by_id 8 corrupt_world = Inl (ValidationError ''name'') \<and>
    increment_usage_count 8 corrupt_world = Inl (ValidationError ''name''))"
proof -
  let ?m = "''Expecting property name enclosed in double quotes: line 1 column 2 (char 1)''"
  have f7: "widget_file corrupt_world (record_name 7) = Some (Not_json ''{'' ?m)"
    by (simp add: widget_file_def corrupt_world_def record_name_def str_int_def str_nat.simps
        digit_char_def)
  have l7: "load_widget (Not_json ''{'' ?m) = Inl (JSONDecodeError ?m)"
    by (simp add: load_widget_def)
  have f8: "widget_file corrupt_world (record_name 8) = Some (Json_text (JObj []))"
    by (simp add: widget_file_def corrupt_world_def record_name_def str_int_def str_nat.simps
        digit_char_def)
  have l8: "load_widget (Json_text (JObj [])) = Inl (ValidationError ''name'')"
    by (simp add: load_widget_def Widget_validate_def field_def)
  show ?thesis
    using f7 l7 f8 l8 unreadable_record_raises [OF f7 l7] unreadable_record_raises [OF f8 l8]
    by simp
qed

section \<open>The executor and the endpoint\<close>

lemma evict_simps [simp]:
  "sys_modules (evict w) module_name_str = None"
  "files (evict w) = files w"
  "widgets_dir (evict w) = widgets_dir w"
  by (simp_all add: evict_def)

lemma evict_evict [simp]: "evict (evict w) = evict w"
  by (simp add: evict_def)

lemma execute_evicts:
  "execute_widget_code py path inputs w = (r, w') \<Longrightarrow> sys_modules w' module_name_str = None"
  by (auto simp: execute_widget_code_def split: prod.splits)

lemma files_remove_if_exists: "files (remove_if_exists p w) = (files w)(p := None)"
  by (auto simp: remove_if_exists_def)

lemma other_remove_if_exists [simp]:
  "sys_modules (remove_if_exists p w) = sys_modules w"
  "widgets_dir (remove_if_exists p w) = widgets_dir w"
  by (simp_all add: remove_if_exists_def)

lemma files_fold_remove:
  "files (fold remove_if_exists ps w) q = (if q \<in> set ps then None else files w q)"
  by (induction ps arbitrary: w) (auto simp: files_remove_if_exists)

lemma other_fold_remove [simp]:
  "sys_modules (fold remove_if_exists ps w) = sys_modules w"
  "widgets_dir (fold remove_if_exists ps w) = widgets_dir w"
  by (induction ps arbitrary: w) simp_all

lemma files_cleanup:
  "files (cleanup t ps w) q =
     (if q \<in> set ps \<or> t = Some q then None else files w q)"
  by (cases t) (auto simp: cleanup_def files_fold_remove files_remove_if_exists)

lemma other_cleanup [simp]:
  "sys_modules (cleanup t ps w) = sys_modules w"
  "widgets_dir (cleanup t ps w) = widgets_dir w"
  by (cases t; simp add: cleanup_def)+

lemma marshal_paths:
  "marshal cw fd inputs ps w = (r, ps', w') \<Longrightarrow>
     set ps \<union> set (materialized cw fd) \<subseteq> set ps' \<and> sys_modules w' = sys_modules w \<and>
     widgets_dir w' = widgets_dir w"
proof (induction cw fd inputs ps w rule: marshal.induct)
  case (1 cw inputs temp_file_paths w)
  then show ?case by simp
next
  case (2 cw key v rest inputs temp_file_paths w)
  from "2.prems" have "marshal cw rest (inputs(key \<mapsto> PyStr v)) temp_file_paths w = (r, ps', w')"
    by simp
  from "2.IH" [OF this] show ?case by simp
next
  case (3 cw key filename content rest inputs temp_file_paths w)
  let ?p = "''uploads/'' @ filename"
  show ?case
  proof (cases "filename = []")
    case True
    with "3.prems" have
      "marshal cw rest (inputs(key \<mapsto> PyUploadFile filename content)) temp_file_paths w
         = (r, ps', w')"
      by simp
    from "3.IH"(2) [OF _ this] True show ?thesis by simp
  next
    case False
    show ?thesis
    proof (cases "cw ?p")
      case True
      with False "3.prems" have
        "marshal cw rest (inputs(key \<mapsto> PyStr ?p)) (temp_file_paths @ [?p])
           (w\<lparr>files := (files w)(?p \<mapsto> content)\<rparr>) = (r, ps', w')"
        by (simp add: Let_def)
      from "3.IH"(1) [OF False refl refl True this] False True show ?thesis by simp
    next
      case nw: False
      with False "3.prems" show ?thesis by (auto simp: Let_def)
    qed
  qed
qed

lemma marshal_reaches:
  "(\<exists>inputs'. fst (marshal cw fd inputs ps w) = Inr inputs') = list_all cw (upload_paths fd)"
  by (induction cw fd inputs ps w rule: marshal.induct) (simp_all add: Let_def fun_upd_def)

lemma increment_registry:
  "increment_usage_count wid w = Inr w' \<Longrightarrow> sys_modules w' = sys_modules w"
  by (auto simp: increment_usage_count_def write_record_def split: sum.splits option.splits)

lemma run_body_post:
  assumes "run_body py env wid widget w = (r, t, ps, w1)"
  shows "(executor_reached env \<longrightarrow> sys_modules w1 module_name_str = None) \<and>
         (\<not> executor_reached env \<longrightarrow> sys_modules w1 = sys_modules w) \<and>
         (\<forall>n. tmp_name env = Some n \<longrightarrow> t = Some (n @ ''.py'')) \<and>
         (\<forall>fd. tmp_name env \<noteq> None \<and> form env = Inr fd \<longrightarrow> set (materialized (can_write env) fd) \<subseteq> set ps)"
proof (cases "tmp_name env")
  case None
  with assms show ?thesis by (auto simp: run_body_def executor_reached_def)
next
  case (Some n)
  let ?w1 = "w\<lparr>files := (files w)(n @ ''.py'' \<mapsto> python_code widget)\<rparr>"
  show ?thesis
  proof (cases "form env")
    case (Inl e)
    with Some assms show ?thesis by (auto simp: run_body_def Let_def executor_reached_def)
  next
    case (Inr fd)
    obtain mr mps mw where m: "marshal (can_write env) fd Map.empty [] ?w1 = (mr, mps, mw)"
      by (cases "marshal (can_write env) fd Map.empty [] ?w1") auto
    note mp = marshal_paths [OF m]
    have reach: "executor_reached env = (\<exists>inputs'. mr = Inr inputs')"
      using marshal_reaches [of "can_write env" fd Map.empty "[]" ?w1] m Some Inr
      by (simp add: executor_reached_def)
    show ?thesis
    proof (cases mr)
      case (Inl e)
      with Some \<open>form env = Inr fd\<close> m mp reach assms show ?thesis
        by (auto simp: run_body_def Let_def)
    next
      case (Inr inputs)
      obtain xr xw where x: "execute_widget_code py (n @ ''.py'') inputs mw = (xr, xw)"
        by (cases "execute_widget_code py (n @ ''.py'') inputs mw") auto
      note ev = execute_evicts [OF x]
      show ?thesis
      proof (cases xr)
        case (Inl e)
        with Some \<open>form env = Inr fd\<close> m mp Inr x ev reach assms show ?thesis
          by (auto simp: run_body_def Let_def)
      next
        case res: (Inr result)
        show ?thesis
        proof (cases "increment_usage_count wid xw")
          case (Inl e)
          with Some \<open>form env = Inr fd\<close> m mp Inr x ev res reach assms show ?thesis
            by (auto simp: run_body_def Let_def)
        next
          case w4: (Inr w4)
          with Some \<open>form env = Inr fd\<close> m mp Inr x ev res reach assms
            increment_registry [OF w4]
          show ?thesis
            by (auto simp: run_body_def Let_def)
        qed
      qed
    qed
  qed
qed

text \<open>
  C3.  Whatever the loaded code does and however the execution ends (a response, the
  error response, or an exception passing through), the state the endpoint returns has
  no temporary code file and none of the upload files this call wrote.  When the call
  got as far as the executor, the module registry has no entry under the executor's
  module name, whatever was registered there before and whatever the loaded code did;
  when it did not, nothing was loaded and the registry is as it was before the call.
  (The bytecode cache file that the loader writes beside the code file is a different
  file; no \<open>finally\<close> clause removes it.)
\<close>

theorem cleanup_on_every_exit:
  assumes "get_widget_by_id wid w = Inr (Some widget)"
    and "run_widget_endpoint py env wid w = (r, w')"
  shows "(executor_reached env \<longrightarrow> sys_modules w' ''dynamic_widget_module'' = None) \<and>
         (\<not> executor_reached env \<longrightarrow> sys_modules w' = sys_modules w) \<and>
         (\<forall>n. tmp_name env = Some n \<longrightarrow> files w' (n @ ''.py'') = None) \<and>
         (\<forall>n fd. tmp_name env = Some n \<and> form env = Inr fd \<longrightarrow>
            (\<forall>p \<in> set (materialized (can_write env) fd). files w' p = None))"
proof -
  obtain br t ps w1 where b: "run_body py env wid widget w = (br, t, ps, w1)"
    by (cases "run_body py env wid widget w") auto
  from assms b have w': "w' = cleanup t ps w1"
    by (auto simp: run_widget_endpoint_def)
  from run_body_post [OF b] show ?thesis
    by (auto simp: w' files_cleanup module_name_str_def)
qed

lemma get_busy_sum_widget:
  "get_widget_by_id 1700000000000 busy_sum_world = Inr (Some sum_widget)"
  by (simp add: get_widget_by_id_def widget_file_def busy_sum_world_def sum_world_def
      record_name_sum load_sum_widget)

theorem cleanup_on_every_exit_witness:
  "get_widget_by_id 1700000000000 busy_sum_world = Inr (Some sum_widget) \<and>
   sys_modules busy_sum_world ''dynamic_widget_module'' = Some ''/tmp/other.py'' \<and>
   (executor_reached upload_env \<and>
    sys_modules (snd (run_widget_endpoint py_sum upload_env 1700000000000 busy_sum_world))
      ''dynamic_widget_module'' = None \<and>
    files (snd (run_widget_endpoint py_sum upload_env 1700000000000 busy_sum_world))
      ''/tmp/tmpab12cd.py'' = None \<and>
    files (snd (run_widget_endpoint py_sum upload_env 1700000000000 busy_sum_world))
      ''uploads/cat.png'' = None) \<and>
   (\<not> executor_reached denied_env \<and>
    sys_modules (snd (run_widget_endpoint py_sum denied_env 1700000000000 busy_sum_world))
      = sys_modules busy_sum_world \<and>
    files (snd (run_widget_endpoint py_sum denied_env 1700000000000 busy_sum_world))
      ''/tmp/tmpab12cd.py'' = None)"
proof -
  have r: "executor_reached upload_env" "\<not> executor_reached denied_env"
    by (simp_all add: executor_reached_def upload_env_def denied_env_def)
  have m: "sys_modules busy_sum_world ''dynamic_widget_module'' = Some ''/tmp/other.py''"
    by (simp add: busy_sum_world_def module_name_str_def)
  show ?thesis
    using get_busy_sum_widget r m
      cleanup_on_every_exit [OF get_busy_sum_widget, of py_sum upload_env
        "fst (run_widget_endpoint py_sum upload_env 1700000000000 busy_sum_world)"
        "snd (run_widget_endpoint py_sum upload_env 1700000000000 busy_sum_world)"]
      cleanup_on_every_exit [OF get_busy_sum_widget, of py_sum denied_env
        "fst (run_widget_endpoint py_sum denied_env 1700000000000 busy_sum_world)"
        "snd (run_widget_endpoint py_sum denied_env 1700000000000 busy_sum_world)"]
    by (simp add: upload_env_def denied_env_def)
qed

section \<open>The executor\<close>

lemma has_loader_w: "has_loader ''/tmp/w.py''"
  by (simp add: has_loader_def endswith_def)

lemma has_loader_tmp: "has_loader ''/tmp/tmpab12cd.py''"
  by (simp add: has_loader_def endswith_def)

lemma execute_no_loader:
  "\<not> has_loader path \<Longrightarrow>
     execute_widget_code py path inputs w =
       (Inl (ImportError (''Cannot create module spec from '' @ path)), unbound w)"
  by (simp add: execute_widget_code_def load_and_run_def evict_def unbound_def
      module_name_str_def)

lemma execute_missing_file:
  "has_loader path \<Longrightarrow> files w path = None \<Longrightarrow>
     execute_widget_code py path inputs w = (Inl (file_not_found path), unbound w)"
  by (simp add: execute_widget_code_def load_and_run_def exec_module_def register_unit_def
      evict_def unbound_def module_name_str_def)

lemma execute_compile_error:
  "has_loader path \<Longrightarrow> files w path = Some source \<Longrightarrow> compile_source py source = Inl e \<Longrightarrow>
     execute_widget_code py path inputs w = (Inl e, unbound w)"
  by (simp add: execute_widget_code_def load_and_run_def exec_module_def register_unit_def
      evict_def unbound_def module_name_str_def)

lemma execute_loaded:
  assumes "has_loader path" and "files w path = Some source"
    and "compile_source py source = Inr body"
    and "body (load_state (cache_tag py) path source w) = (m, w1)"
  shows "execute_widget_code py path inputs w =
           (case m of
              Inl e \<Rightarrow> (Inl e, unbound w1)
            | Inr None \<Rightarrow> (Inl missing_run_widget, unbound w1)
            | Inr (Some (Value v)) \<Rightarrow> (Inl (not_callable v), unbound w1)
            | Inr (Some (Function f)) \<Rightarrow> (fst (f inputs w1), unbound (snd (f inputs w1))))"
proof -
  have "exec_module py path (register_unit path (evict w)) = (m, w1)"
    using assms
    by (simp add: exec_module_def register_unit_def evict_def load_state_def
        module_name_str_def)
  then show ?thesis
    using assms(1)
    by (simp add: execute_widget_code_def load_and_run_def evict_def unbound_def
        module_name_str_def split: sum.splits option.splits attr.splits prod.splits)
qed

lemma cache_w: "cache_from_source ''cpython-311'' ''/tmp/w.py'' = ''/tmp/__pycache__/w.cpython-311.pyc''"
  by (simp add: cache_from_source_def)

lemma cache_tmp:
  "cache_from_source ''cpython-311'' ''/tmp/tmpab12cd.py''
     = ''/tmp/__pycache__/tmpab12cd.cpython-311.pyc''"
  by (simp add: cache_from_source_def)

text \<open>
  C5 (amended).  The executor has no error classes of its own and wraps nothing.  A path
  no loader fits gives the \<open>ImportError\<close> of the executor; a missing file, a compile
  error and an exception of the module body come out as they are; a loaded module
  without an attribute \<open>run_widget\<close> gives the executor's \<open>AttributeError\<close>; and
  whatever the entry point returns or raises comes out unchanged, an exception with its
  own class and message.
\<close>

theorem executor_errors_propagate:
  "(\<not> has_loader path \<longrightarrow>
      fst (execute_widget_code py path inputs w)
        = Inl (ImportError (''Cannot create module spec from '' @ path))) \<and>
   (has_loader path \<and> files w path = None \<longrightarrow>
      fst (execute_widget_code py path inputs w)
        = Inl (Raised ''FileNotFoundError''
                 (''[Errno 2] No such file or directory: '' @ quoted path))) \<and>
   (has_loader path \<and> files w path = Some source \<and> compile_source py source = Inl e \<longrightarrow>
      fst (execute_widget_code py path inputs w) = Inl e) \<and>
   (has_loader path \<and> files w path = Some source \<and> compile_source py source = Inr body \<and>
    body (load_state (cache_tag py) path source w) = (Inl e, w1) \<longrightarrow>
      fst (execute_widget_code py path inputs w) = Inl e) \<and>
   (has_loader path \<and> files w path = Some source \<and> compile_source py source = Inr body \<and>
    body (load_state (cache_tag py) path source w) = (Inr None, w1) \<longrightarrow>
      fst (execute_widget_code py path inputs w) = Inl (AttributeError ''Widget code is missing the required 'run_widget' function.'')) \<and>
   (has_loader path \<and> files w path = Some source \<and> compile_source py source = Inr body \<and>
    body (load_state (cache_tag py) path source w) = (Inr (Some (Function f)), w1) \<longrightarrow>
      fst (execute_widget_code py path inputs w) = fst (f inputs w1))"
proof (intro conjI impI)
  assume "\<not> has_loader path"
  then show "fst (execute_widget_code py path inputs w)
        = Inl (ImportError (''Cannot create module spec from '' @ path))"
    by (simp add: execute_no_loader)
next
  assume "has_loader path \<and> files w path = None"
  then show "fst (execute_widget_code py path inputs w)
        = Inl (Raised ''FileNotFoundError''
                 (''[Errno 2] No such file or directory: '' @ quoted path))"
    by (simp add: execute_missing_file file_not_found_def)
next
  assume "has_loader path \<and> files w path = Some source \<and> compile_source py source = Inl e"
  then show "fst (execute_widget_code py path inputs w) = Inl e"
    by (simp add: execute_compile_error)
next
  assume "has_loader path \<and> files w path = Some source \<and> compile_source py source = Inr body \<and>
    body (load_state (cache_tag py) path source w) = (Inl e, w1)"
  then show "fst (execute_widget_code py path inputs w) = Inl e"
    using execute_loaded [of path w source py body "Inl e" w1 inputs] by simp
next
  assume "has_loader path \<and> files w path = Some source \<and> compile_source py source = Inr body \<and>
    body (load_state (cache_tag py) path source w) = (Inr None, w1)"
  then show "fst (execute_widget_code py path inputs w) = Inl (AttributeError ''Widget code is missing the required 'run_widget' function.'')"
    using execute_loaded [of path w source py body "Inr None" w1 inputs]
    by (simp add: missing_run_widget_def)
next
  assume "has_loader path \<and> files w path = Some source \<and> compile_source py source = Inr body \<and>
    body (load_state (cache_tag py) path source w) = (Inr (Some (Function f)), w1)"
  then show "fst (execute_widget_code py path inputs w) = fst (f inputs w1)"
    using execute_loaded [of path w source py body "Inr (Some (Function f))" w1 inputs] by simp
qed

lemma files_bundle_world: "files (bundle_world s) ''/tmp/w.py'' = Some s"
  by (simp add: bundle_world_def)

lemma compile_samples:
  "compile_source py_sum sum_source = Inr (\<lambda>w. (Inr (Some (Function sum_run_widget)), w))"
  "compile_source py_sum probe_source = Inr (\<lambda>w. (Inr (Some (Function probe_run_widget)), w))"
  "compile_source py_sum nested_source = Inr (\<lambda>w. (Inr (Some (Function nested_run_widget)), w))"
  "compile_source py_sum ''x = 1'' = Inr (\<lambda>w. (Inr None, w))"
  "compile_source py_sum ''1/0''
     = Inr (\<lambda>w. (Inl (Raised ''ZeroDivisionError'' ''division by zero''), w))"
  "compile_source py_sum ''import'' = Inl (Raised ''SyntaxError'' ''invalid syntax'')"
  "cache_tag py_sum = ''cpython-311''"
  by (simp_all add: py_sum_def sum_source_def probe_source_def nested_source_def)

theorem executor_errors_propagate_witness:
  "fst (execute_widget_code py_sum ''/tmp/w.txt'' Map.empty (bundle_world sum_source))
     = Inl (ImportError ''Cannot create module spec from /tmp/w.txt'') \<and>
   fst (execute_widget_code py_sum ''/tmp/gone.py'' Map.empty (bundle_world sum_source))
     = Inl (Raised ''FileNotFoundError''
              (''[Errno 2] No such file or directory: '' @ quoted ''/tmp/gone.py'')) \<and>
   fst (execute_widget_code py_sum ''/tmp/w.py'' Map.empty (bundle_world ''import''))
     = Inl (Raised ''SyntaxError'' ''invalid syntax'') \<and>
   fst (execute_widget_code py_sum ''/tmp/w.py'' Map.empty (bundle_world ''1/0''))
     = Inl (Raised ''ZeroDivisionError'' ''division by zero'') \<and>
   fst (execute_widget_code py_sum ''/tmp/w.py'' Map.empty (bundle_world ''x = 1''))
     = Inl (AttributeError ''Widget code is missing the required 'run_widget' function.'') \<and>
   fst (execute_widget_code py_sum ''/tmp/w.py'' Map.empty (bundle_world sum_source))
     = Inl (KeyError ''a'') \<and>
   fst (execute_widget_code py_sum ''/tmp/w.py'' [''a'' \<mapsto> PyStr ''2'', ''b'' \<mapsto> PyStr ''3'']
          (bundle_world sum_source))
     = Inr (PyStr ''23'')"
proof -
  have n: "\<not> has_loader ''/tmp/w.txt''" "has_loader ''/tmp/gone.py''"
    "files (bundle_world sum_source) ''/tmp/gone.py'' = None"
    by (simp_all add: has_loader_def endswith_def bundle_world_def)
  have r: "\<And>w. fst (sum_run_widget Map.empty w) = Inl (KeyError ''a'')"
    "\<And>w. fst (sum_run_widget [''a'' \<mapsto> PyStr ''2'', ''b'' \<mapsto> PyStr ''3''] w) = Inr (PyStr ''23'')"
    by (simp_all add: sum_run_widget_def subscript_def)
  show ?thesis
    using
      executor_errors_propagate [where path = "''/tmp/w.txt''" and py = py_sum
        and inputs = Map.empty and w = "bundle_world sum_source"]
      executor_errors_propagate [where path = "''/tmp/gone.py''" and py = py_sum
        and inputs = Map.empty and w = "bundle_world sum_source"]
      executor_errors_propagate [where path = "''/tmp/w.py''" and py = py_sum
        and inputs = Map.empty and w = "bundle_world ''import''" and source = "''import''"
        and e = "Raised ''SyntaxError'' ''invalid syntax''"]
      executor_errors_propagate [where path = "''/tmp/w.py''" and py = py_sum
        and inputs = Map.empty and w = "bundle_world ''1/0''" and source = "''1/0''"
        and body = "\<lambda>w. (Inl (Raised ''ZeroDivisionError'' ''division by zero''), w)"
        and e = "Raised ''ZeroDivisionError'' ''division by zero''"
        and ?w1.0 = "load_state ''cpython-311'' ''/tmp/w.py'' ''1/0'' (bundle_world ''1/0'')"]
      executor_errors_propagate [where path = "''/tmp/w.py''" and py = py_sum
        and inputs = Map.empty and w = "bundle_world ''x = 1''" and source = "''x = 1''"
        and body = "\<lambda>w. (Inr None, w)"
        and ?w1.0 = "load_state ''cpython-311'' ''/tmp/w.py'' ''x = 1'' (bundle_world ''x = 1'')"]
      executor_errors_propagate [where path = "''/tmp/w.py''" and py = py_sum
        and inputs = Map.empty and w = "bundle_world sum_source" and source = sum_source
        and body = "\<lambda>w. (Inr (Some (Function sum_run_widget)), w)" and f = sum_run_widget
        and ?w1.0 = "load_state ''cpython-311'' ''/tmp/w.py'' sum_source (bundle_world sum_source)"]
      executor_errors_propagate [where path = "''/tmp/w.py''" and py = py_sum
        and inputs = "[''a'' \<mapsto> PyStr ''2'', ''b'' \<mapsto> PyStr ''3'']"
        and w = "bundle_world sum_source" and source = sum_source
        and body = "\<lambda>w. (Inr (Some (Function sum_run_widget)), w)" and f = sum_run_widget
        and ?w1.0 = "load_state ''cpython-311'' ''/tmp/w.py'' sum_source (bundle_world sum_source)"]
      n r has_loader_w files_bundle_world compile_samples
    by simp
qed

text \<open>
  C5 as stated fails: a \<open>KeyError\<close> raised inside the entry point comes out as that
  \<open>KeyError\<close>, not wrapped in another class; a module without \<open>run_widget\<close> gives an
  \<open>AttributeError\<close>, and source that does not compile gives the compiler's
  \<open>SyntaxError\<close>.
\<close>

theorem unwrapped_exception_counterexample:
  "fst (execute_widget_code py_sum ''/tmp/w.py'' Map.empty (bundle_world sum_source))
     = Inl (KeyError ''a'') \<and>
   fst (execute_widget_code py_sum ''/tmp/w.py'' Map.empty (bundle_world ''x = 1''))
     = Inl (AttributeError ''Widget code is missing the required 'run_widget' function.'') \<and>
   fst (execute_widget_code py_sum ''/tmp/w.py'' Map.empty (bundle_world ''import''))
     = Inl (Raised ''SyntaxError'' ''invalid syntax'')"
  by (simp add: execute_widget_code_def load_and_run_def exec_module_def register_unit_def
      evict_def has_loader_w files_bundle_world compile_samples missing_run_widget_def
      sum_run_widget_def subscript_def)

text \<open>
  C1 (amended).  The executor loads every bundle under the one fixed module name
  \<open>dynamic_widget_module\<close>; no name is generated per invocation.  The bundle's code
  starts to run in a state in which that name is bound to the invocation's own unit,
  in place of whatever unit was registered under the name before (that of another
  invocation still in flight, say); the invocation returns what the entry point returns
  or raises; and when it returns, however it returns, the registry has no entry under
  the name.
\<close>

theorem fixed_module_identity:
  "sys_modules (snd (execute_widget_code py path inputs w)) ''dynamic_widget_module'' = None \<and>
   (has_loader path \<and> files w path = Some source \<and> compile_source py source = Inr body \<and>
    body (load_state (cache_tag py) path source w) = (Inr (Some (Function f)), w1) \<longrightarrow>
      sys_modules (load_state (cache_tag py) path source w)
        = (sys_modules w)(''dynamic_widget_module'' \<mapsto> path) \<and>
      execute_widget_code py path inputs w = (fst (f inputs w1), unbound (snd (f inputs w1))))"
proof (intro conjI impI)
  show "sys_modules (snd (execute_widget_code py path inputs w)) ''dynamic_widget_module'' = None"
    by (simp add: execute_widget_code_def evict_def module_name_str_def split: prod.splits)
next
  show "sys_modules (load_state (cache_tag py) path source w)
        = (sys_modules w)(''dynamic_widget_module'' \<mapsto> path)"
    by (simp add: load_state_def)
next
  assume "has_loader path \<and> files w path = Some source \<and> compile_source py source = Inr body \<and>
    body (load_state (cache_tag py) path source w) = (Inr (Some (Function f)), w1)"
  then show "execute_widget_code py path inputs w
      = (fst (f inputs w1), unbound (snd (f inputs w1)))"
    using execute_loaded [of path w source py body "Inr (Some (Function f))" w1 inputs] by simp
qed

theorem fixed_module_identity_witness:
  "sys_modules (busy_world probe_source) ''dynamic_widget_module'' = Some ''/tmp/other.py'' \<and>
   has_loader ''/tmp/w.py'' \<and> files (busy_world probe_source) ''/tmp/w.py'' = Some probe_source \<and>
   compile_source py_sum probe_source
     = Inr (\<lambda>w. (Inr (Some (Function probe_run_widget)), w)) \<and>
   sys_modules (load_state ''cpython-311'' ''/tmp/w.py'' probe_source (busy_world probe_source))
     ''dynamic_widget_module'' = Some ''/tmp/w.py'' \<and>
   execute_widget_code py_sum ''/tmp/w.py'' Map.empty (busy_world probe_source)
     = (Inr (PyStr ''/tmp/w.py''),
        \<lparr>widgets_dir = Some [],
         files = [''/tmp/w.py'' \<mapsto> probe_source,
                  ''/tmp/__pycache__/w.cpython-311.pyc'' \<mapsto> ''pyc:'' @ probe_source],
         sys_modules = Map.empty\<rparr>)"
proof -
  have b: "sys_modules (busy_world probe_source) ''dynamic_widget_module'' = Some ''/tmp/other.py''"
    "files (busy_world probe_source) ''/tmp/w.py'' = Some probe_source"
    by (simp_all add: busy_world_def module_name_str_def)
  have p: "probe_run_widget Map.empty
             (load_state ''cpython-311'' ''/tmp/w.py'' probe_source (busy_world probe_source))
           = (Inr (PyStr ''/tmp/w.py''),
              load_state ''cpython-311'' ''/tmp/w.py'' probe_source (busy_world probe_source))"
    by (simp add: probe_run_widget_def load_state_def module_name_str_def)
  have u: "unbound (load_state ''cpython-311'' ''/tmp/w.py'' probe_source (busy_world probe_source))
           = \<lparr>widgets_dir = Some [],
              files = [''/tmp/w.py'' \<mapsto> probe_source,
                       ''/tmp/__pycache__/w.cpython-311.pyc'' \<mapsto> ''pyc:'' @ probe_source],
              sys_modules = Map.empty\<rparr>"
    by (simp add: unbound_def load_state_def busy_world_def cache_w module_name_str_def)
  show ?thesis
    using fixed_module_identity [where path = "''/tmp/w.py''" and py = py_sum
        and inputs = Map.empty and w = "busy_world probe_source" and source = probe_source
        and body = "\<lambda>w. (Inr (Some (Function probe_run_widget)), w)" and f = probe_run_widget
        and ?w1.0 = "load_state ''cpython-311'' ''/tmp/w.py'' probe_source (busy_world probe_source)"]
      b p u has_loader_w compile_samples
    by simp
qed

text \<open>
  C1 as stated fails.  Two invocations that overlap in time: the entry point of the
  bundle \<open>/tmp/outer.py\<close> invokes the executor on the bundle \<open>/tmp/inner.py\<close>.  Both
  units are registered under the same name: before the inner invocation the name is bound
  to the outer unit, during it to the inner unit, and after it to nothing, although the
  outer invocation is still running.
\<close>

theorem shared_module_identity_counterexample:
  "fst (execute_widget_code py_sum ''/tmp/outer.py'' Map.empty nested_world)
     = Inr (PyStr ''/tmp/outer.py /tmp/inner.py None'')"
  by (simp add: execute_widget_code_def load_and_run_def exec_module_def register_unit_def
      evict_def has_loader_def endswith_def compile_samples nested_world_def
      nested_run_widget_def probe_run_widget_def module_name_str_def py_probe_def
      cache_from_source_def)

section \<open>The scenario of the specification\<close>

lemma inputs_23:
  "marshal (\<lambda>p. True) [(''a'', Field ''2''), (''b'', Field ''3'')] Map.empty [] w
     = (Inr [''a'' \<mapsto> PyStr ''2'', ''b'' \<mapsto> PyStr ''3''], [], w)"
  by simp

lemma run_sum_23:
  "sum_run_widget [''a'' \<mapsto> PyStr ''2'', ''b'' \<mapsto> PyStr ''3''] w = (Inr (PyStr ''23''), w)"
  by (simp add: sum_run_widget_def subscript_def)

lemma execute_sum_23:
  assumes "files w ''/tmp/tmpab12cd.py'' = Some sum_source"
  shows "execute_widget_code py_sum ''/tmp/tmpab12cd.py''
           [''a'' \<mapsto> PyStr ''2'', ''b'' \<mapsto> PyStr ''3''] w
         = (Inr (PyStr ''23''),
            unbound (load_state ''cpython-311'' ''/tmp/tmpab12cd.py'' sum_source w))"
  using execute_loaded [OF has_loader_tmp assms compile_samples(1),
      of "Inr (Some (Function sum_run_widget))"
         "load_state ''cpython-311'' ''/tmp/tmpab12cd.py'' sum_source w"
         "[''a'' \<mapsto> PyStr ''2'', ''b'' \<mapsto> PyStr ''3'']"]
  by (simp add: compile_samples run_sum_23)

lemma run_body_sum:
  "run_body py_sum example_env 1700000000000 sum_widget sum_world =
     (Inr ''23'', Some ''/tmp/tmpab12cd.py'', [],
      after_run\<lparr>files := [''/tmp/tmpab12cd.py'' \<mapsto> sum_source,
        ''/tmp/__pycache__/tmpab12cd.cpython-311.pyc'' \<mapsto> ''pyc:'' @ sum_source]\<rparr>)"
proof -
  let ?w1 = "sum_world\<lparr>files := (files sum_world)(''/tmp/tmpab12cd.py'' \<mapsto> python_code sum_widget)\<rparr>"
  let ?w3 = "unbound (load_state ''cpython-311'' ''/tmp/tmpab12cd.py'' sum_source ?w1)"
  have f: "files ?w1 ''/tmp/tmpab12cd.py'' = Some sum_source"
    by (simp add: sum_widget_def)
  have g: "get_widget_by_id 1700000000000 ?w3 = Inr (Some sum_widget)"
    by (simp add: get_widget_by_id_def widget_file_def sum_world_def record_name_sum
        load_sum_widget unbound_def load_state_def)
  have i: "increment_usage_count 1700000000000 ?w3 =
      Inr (after_run\<lparr>files := [''/tmp/tmpab12cd.py'' \<mapsto> sum_source,
        ''/tmp/__pycache__/tmpab12cd.cpython-311.pyc'' \<mapsto> ''pyc:'' @ sum_source]\<rparr>)"
    unfolding increment_usage_count_def g
    by (simp add: write_record_def unbound_def load_state_def sum_world_def cache_tmp
        record_name_sum after_run_def sum_widget_def)
  show ?thesis
    by (simp add: run_body_def example_env_def Let_def inputs_23 execute_sum_23 [OF f] i)
qed

text \<open>
  C9 (amended).  The form fields arrive as text, so \<open>inputs["a"] + inputs["b"]\<close> on the
  payload a = "2", b = "3" concatenates: the response is the output "23".  After this one
  successful run the record's \<open>usage_count\<close> is 1, and the temporary file and the
  registry entry are gone.
\<close>

theorem sum_widget_run:
  "run_widget_endpoint py_sum example_env 1700000000000 sum_world =
     (Inr (JSONResponse 200 ''output'' ''23''), after_run) \<and>
   get_widget_by_id 1700000000000 after_run = Inr (Some (sum_widget\<lparr>usage_count := 1\<rparr>))"
proof -
  have v: "valid_datetime (creation_date (sum_widget\<lparr>usage_count := 1\<rparr>))"
    using valid_example_time by (simp add: sum_widget_def)
  have "get_widget_by_id 1700000000000 after_run = Inr (Some (sum_widget\<lparr>usage_count := 1\<rparr>))"
    using Widget_of_model_dump [OF v]
    by (simp add: get_widget_by_id_def widget_file_def after_run_def record_name_sum
        load_widget_def)
  moreover have "run_widget_endpoint py_sum example_env 1700000000000 sum_world =
     (Inr (JSONResponse 200 ''output'' ''23''), after_run)"
    by (simp add: run_widget_endpoint_def get_sum_widget run_body_sum cleanup_def
        remove_if_exists_def after_run_def fun_upd_twist)
  ultimately show ?thesis by simp
qed

text \<open>C9 as stated fails: the output of the scenario is not "5".\<close>

theorem sum_widget_output_counterexample:
  "fst (run_widget_endpoint py_sum example_env 1700000000000 sum_world)
     \<noteq> Inr (JSONResponse 200 ''output'' ''5'')"
  by (simp add: run_widget_endpoint_def get_sum_widget run_body_sum)

section \<open>Identifiers\<close>

lemma create_widget_id:
  "create_widget now_ms utcnow widget_data w = Inr (x, w') \<Longrightarrow> widget_id x = py_int now_ms"
  by (auto simp: create_widget_def Let_def split: sum.splits)

lemma created_record_readable:
  assumes "create_widget now_ms utcnow widget_data w = Inr (x, w')" and "valid_datetime utcnow"
  shows "get_widget_by_id (py_int now_ms) w' = Inr (Some x)"
proof -
  from assms(1) have x: "creation_date x = utcnow" "widget_id x = py_int now_ms"
    and wr: "write_record (record_name (widget_id x)) (model_dump x) w = Inr w'"
    by (auto simp: create_widget_def Let_def split: sum.splits)
  show ?thesis
    using widget_file_write_record [OF wr, of "record_name (widget_id x)"]
      Widget_of_model_dump [of x] x assms(2)
    by (simp add: get_widget_by_id_def load_widget_def)
qed

lemma record_name_next: "record_name 1700000000001 = ''1700000000001.json''"
  by (simp add: record_name_def str_int_def str_nat.simps digit_char_def)

lemma create_first:
  "create_widget 1700000000000 example_time example_data empty_world
     = Inr (sum_widget, sum_world)"
  by (simp add: create_widget_def py_int_def record_name_sum write_record_def Let_def
      empty_world_def example_data_def sum_widget_def sum_world_def)

lemma py_int_quarter: "py_int 1700000000000.25 = 1700000000000"
  by (simp add: py_int_def floor_eq_iff)

lemma py_int_half: "py_int 1700000000000.5 = 1700000000000"
  by (simp add: py_int_def floor_eq_iff)

lemma create_quarter:
  "create_widget 1700000000000.25 example_time example_data empty_world
     = Inr (sum_widget, sum_world)"
  unfolding create_widget_def py_int_quarter
  by (simp add: record_name_sum write_record_def Let_def
      empty_world_def example_data_def sum_widget_def sum_world_def)

lemma create_half:
  "create_widget 1700000000000.5 example_time example_data sum_world
     = Inr (sum_widget, sum_world)"
  unfolding create_widget_def py_int_half
  by (simp add: record_name_sum write_record_def Let_def
      example_data_def sum_widget_def sum_world_def)

text \<open>
  C2 (amended).  The id is the integer part of the float \<open>time.time() * 1000\<close>, the clock
  reading in milliseconds.  Of two successful creates (clock not before the epoch, the
  second product not below the first), whatever happened to the store in between, the
  second never gets the smaller id, and it gets the strictly greater id when the
  products are at least 1 apart.  When both products lie in the same whole millisecond
  \<open>k\<close>, both creates return the id \<open>k\<close>, and if the second create works on the store
  the first one left, the record read back under that id is the second one: the file of
  the first record is overwritten.
\<close>

theorem ids_increase_across_milliseconds:
  assumes "create_widget ms1 d1 wd1 w = Inr (x1, w1)"
    and "create_widget ms2 d2 wd2 v = Inr (x2, w2)"
    and "0 \<le> ms1" and "ms1 \<le> ms2"
  shows "widget_id x1 \<le> widget_id x2 \<and>
         (ms1 + 1 \<le> ms2 \<longrightarrow> widget_id x1 < widget_id x2) \<and>
         (of_int k \<le> ms1 \<and> ms2 < of_int k + 1 \<longrightarrow>
            widget_id x1 = k \<and> widget_id x2 = k \<and>
            (v = w1 \<and> valid_datetime d2 \<longrightarrow> get_widget_by_id k w2 = Inr (Some x2)))"
proof -
  have "0 \<le> ms2" using assms(3,4) by simp
  then have i: "widget_id x1 = \<lfloor>ms1\<rfloor>" "widget_id x2 = \<lfloor>ms2\<rfloor>"
    using create_widget_id [OF assms(1)] create_widget_id [OF assms(2)] assms(3)
    by (simp_all add: py_int_def)
  have a: "\<lfloor>ms1\<rfloor> \<le> \<lfloor>ms2\<rfloor>" using assms(4) by (rule floor_mono)
  have b: "\<lfloor>ms1\<rfloor> < \<lfloor>ms2\<rfloor>" if "ms1 + 1 \<le> ms2"
  proof -
    from that have "\<lfloor>ms1 + 1\<rfloor> \<le> \<lfloor>ms2\<rfloor>" by (rule floor_mono)
    then show ?thesis by simp
  qed
  have c: "\<lfloor>ms1\<rfloor> = k \<and> \<lfloor>ms2\<rfloor> = k" if "of_int k \<le> ms1 \<and> ms2 < of_int k + 1"
    using that assms(4) by (simp add: floor_eq_iff)
  have g: "valid_datetime d2 \<Longrightarrow> get_widget_by_id (widget_id x2) w2 = Inr (Some x2)"
    using created_record_readable [OF assms(2)] create_widget_id [OF assms(2)] by simp
  show ?thesis
  proof (intro conjI impI)
    show "widget_id x1 \<le> widget_id x2" using i a by simp
  next
    assume "ms1 + 1 \<le> ms2"
    then show "widget_id x1 < widget_id x2" using i b by simp
  next
    assume "of_int k \<le> ms1 \<and> ms2 < of_int k + 1"
    then show "widget_id x1 = k" using i c by simp
  next
    assume "of_int k \<le> ms1 \<and> ms2 < of_int k + 1"
    then show "widget_id x2 = k" using i c by simp
  next
    assume "of_int k \<le> ms1 \<and> ms2 < of_int k + 1" and "v = w1 \<and> valid_datetime d2"
    then show "get_widget_by_id k w2 = Inr (Some x2)" using i c g by simp
  qed
qed

theorem ids_increase_across_milliseconds_witness:
  "(create_widget 1700000000000 example_time example_data empty_world
      = Inr (sum_widget, sum_world) \<and>
    create_widget 1700000000001 example_time example_data sum_world
      = Inr (sum_widget\<lparr>widget_id := 1700000000001\<rparr>,
             sum_world\<lparr>widgets_dir := Some
               [(''1700000000000.json'', Json_text (model_dump sum_widget)),
                (''1700000000001.json'',
                 Json_text (model_dump (sum_widget\<lparr>widget_id := 1700000000001\<rparr>)))]\<rparr>) \<and>
    (0::real) \<le> 1700000000000 \<and> (1700000000000::real) + 1 \<le> 1700000000001 \<and>
    widget_id sum_widget < widget_id (sum_widget\<lparr>widget_id := 1700000000001\<rparr>)) \<and>
   (create_widget 1700000000000.25 example_time example_data empty_world
      = Inr (sum_widget, sum_world) \<and>
    create_widget 1700000000000.5 example_time (example_data\<lparr>name := ''Second''\<rparr>) sum_world
      = Inr (sum_widget\<lparr>name := ''Second''\<rparr>,
             sum_world\<lparr>widgets_dir := Some
               [(''1700000000000.json'',
                 Json_text (model_dump (sum_widget\<lparr>name := ''Second''\<rparr>)))]\<rparr>) \<and>
    (0::real) \<le> 1700000000000.25 \<and> (1700000000000.25::real) \<le> 1700000000000.5 \<and>
    of_int 1700000000000 \<le> (1700000000000.25::real) \<and>
    (1700000000000.5::real) < of_int 1700000000000 + 1 \<and>
    valid_datetime example_time \<and>
    widget_id (sum_widget\<lparr>name := ''Second''\<rparr>) = 1700000000000 \<and>
    get_widget_by_id 1700000000000
      (sum_world\<lparr>widgets_dir := Some
         [(''1700000000000.json'',
           Json_text (model_dump (sum_widget\<lparr>name := ''Second''\<rparr>)))]\<rparr>)
      = Inr (Some (sum_widget\<lparr>name := ''Second''\<rparr>)))"
proof -
  have c2: "create_widget 1700000000001 example_time example_data sum_world
     = Inr (sum_widget\<lparr>widget_id := 1700000000001\<rparr>,
            sum_world\<lparr>widgets_dir := Some
              [(''1700000000000.json'', Json_text (model_dump sum_widget)),
               (''1700000000001.json'',
                Json_text (model_dump (sum_widget\<lparr>widget_id := 1700000000001\<rparr>)))]\<rparr>)"
    by (simp add: create_widget_def py_int_def record_name_next write_record_def Let_def
        example_data_def sum_widget_def sum_world_def)
  have c4: "create_widget 1700000000000.5 example_time (example_data\<lparr>name := ''Second''\<rparr>)
        sum_world
      = Inr (sum_widget\<lparr>name := ''Second''\<rparr>,
             sum_world\<lparr>widgets_dir := Some
               [(''1700000000000.json'',
                 Json_text (model_dump (sum_widget\<lparr>name := ''Second''\<rparr>)))]\<rparr>)"
    unfolding create_widget_def py_int_half
    by (simp add: record_name_sum write_record_def Let_def
        example_data_def sum_widget_def sum_world_def)
  have n: "(0::real) \<le> 1700000000000" "(1700000000000::real) \<le> 1700000000001"
    "(1700000000000::real) + 1 \<le> 1700000000001"
    "(0::real) \<le> 1700000000000.25" "(1700000000000.25::real) \<le> 1700000000000.5"
    "of_int 1700000000000 \<le> (1700000000000.25::real) \<and>
     (1700000000000.5::real) < of_int 1700000000000 + 1"
    by simp_all
  note t1 = ids_increase_across_milliseconds [OF create_first c2 n(1) n(2), of 0]
  note t2 = ids_increase_across_milliseconds [OF create_quarter c4 n(4) n(5),
      of 1700000000000]
  have r1: "widget_id sum_widget < widget_id (sum_widget\<lparr>widget_id := 1700000000001\<rparr>)"
    using t1 n(3) by blast
  have r2: "widget_id (sum_widget\<lparr>name := ''Second''\<rparr>) = 1700000000000"
    using t2 n(6) by blast
  have r3: "get_widget_by_id 1700000000000
      (sum_world\<lparr>widgets_dir := Some
         [(''1700000000000.json'',
           Json_text (model_dump (sum_widget\<lparr>name := ''Second''\<rparr>)))]\<rparr>)
      = Inr (Some (sum_widget\<lparr>name := ''Second''\<rparr>))"
    using t2 n(6) valid_example_time by blast
  show ?thesis
    by (intro conjI create_first c2 create_quarter c4 n(1) n(3) n(4) n(5) n(6) [THEN conjunct1]
        n(6) [THEN conjunct2] valid_example_time r1 r2 r3)
qed

text \<open>
  C2 as stated fails: two successful creates a quarter of a millisecond apart (clock
  readings 1700000000.00025 and 1700000000.0005, whose float products are
  1700000000000.25 and 1700000000000.5) return the same id, and the second one replaces
  the record file of the first.
\<close>

theorem same_millisecond_counterexample:
  "create_widget 1700000000000.25 example_time example_data empty_world
     = Inr (sum_widget, sum_world) \<and>
   create_widget 1700000000000.5 example_time example_data sum_world
     = Inr (sum_widget, sum_world)"
  using create_quarter create_half by simp

section \<open>The listing\<close>






















text \<open>
  A record file that holds a JSON object which fails validation is not covered by the
  theorem above: pydantic's \<open>ValidationError\<close> is not among the exceptions the handler
  names, so it leaves the loop.
\<close>

lemma order_corrupt:
  "listing_order [(''7.json'', a), (''8.json'', b)] = [''8.json'', ''7.json'']"
  unfolding listing_order_def list.map fst_conv by code_simp

lemma listing_of_invalid_record:
  "get_all_widgets corrupt_world = Inl (ValidationError ''name'')"
  by (simp add: get_all_widgets_def corrupt_world_def order_corrupt endswith_def
      load_widget_def Widget_validate_def field_def)

end
